theory Spec2Isabelle
  imports Complex_Main "HOL-Library.Char_ord" "HOL-Library.List_Lexorder" "HOL-Library.Log_Nat"
begin

section \<open>CloudWatch Logs cost estimator\<close>

text \<open>
  A shallow embedding of \<^verbatim>\<open>cloudwatch_logs_cost_estimator.py\<close>: the pricing lookup,
  the flat calculator \<^verbatim>\<open>calculate_old_cloudwatch_cost\<close>, the tiered calculator
  \<^verbatim>\<open>calculate_new_cloudwatch_cost\<close> and the aggregation \<^verbatim>\<open>analyze_costs\<close>.

  Numbers. Python mixes \<^verbatim>\<open>int\<close> and \<^verbatim>\<open>float\<close> here. Two models of the arithmetic
  are given. In the first every quantity is an exact rational (\<^typ>\<open>rat\<close>) and no
  operation rounds; it carries the statements whose content rounding does not change
  (which exception is raised, which region and schedule are used, how the totals are
  composed, the order of the rows, inequalities between costs). In the second the
  tiered calculator works on IEEE binary64 values, every operation rounding to nearest
  with ties to even, as Python's \<^verbatim>\<open>float\<close> does; it carries the statements about
  the volume in each band and about exact values of costs, which rounding decides.

  Errors. A Python exception is the left summand of \<open>error + 'a\<close>.
\<close>

subsection \<open>Pricing data\<close>

text \<open>
  Modelled from the spec: the file \<^verbatim>\<open>cloudwatch_pricing.json\<close> read by
  \<^verbatim>\<open>load_pricing_data\<close> is not part of the sources. Its entries have the shape the
  code indexes and the specification lists as required per region:
  \<^verbatim>\<open>{logs: {standard_ingestion, infrequent_ingestion, vended_logs:
  {to_cloudwatch_logs_standard: {first_10tb, next_20tb, next_20tb_plus, over_50tb},
  to_cloudwatch_logs_infrequent: {...}}}}\<close>. The records below are that shape; the
  mapping from region names to entries stays a partial map, so that a missing region
  (and a missing default region) is a case of the model.
\<close>

record tier_schedule =
  first_10tb :: rat
  next_20tb :: rat
  next_20tb_plus :: rat
  over_50tb :: rat

record vended_logs_pricing =
  to_cloudwatch_logs_standard :: tier_schedule
  to_cloudwatch_logs_infrequent :: tier_schedule

record logs_pricing =
  standard_ingestion :: rat
  infrequent_ingestion :: rat
  vended_logs :: vended_logs_pricing

record region_pricing =
  logs :: logs_pricing

type_synonym pricing_data = "string \<rightharpoonup> region_pricing"

datatype error = LoadError | KeyError string

text \<open>
  \<^verbatim>\<open>load_pricing_data()\<close> opens and parses the file, logs and re-raises any exception.
  The file is a parameter of the model: \<open>None\<close> when it cannot be opened or parsed,
  \<open>Some pd\<close> when \<^verbatim>\<open>json.load\<close> returns the dictionary \<open>pd\<close>.
\<close>

definition load_pricing_data :: "pricing_data option \<Rightarrow> error + pricing_data" where
  "load_pricing_data pricing_file =
     (case pricing_file of None \<Rightarrow> Inl LoadError | Some pd \<Rightarrow> Inr pd)"

text \<open>
  The expression \<^verbatim>\<open>pricing_data.get(region, pricing_data['us-east-1'])\<close>. Python
  evaluates the default argument before the call, so a dictionary without the key
  \<^verbatim>\<open>'us-east-1'\<close> raises \<^verbatim>\<open>KeyError\<close> whatever the region is.
\<close>

definition get_region_pricing :: "pricing_data \<Rightarrow> string \<Rightarrow> error + region_pricing" where
  "get_region_pricing pricing_data region =
     (case pricing_data ''us-east-1'' of
        None \<Rightarrow> Inl (KeyError ''us-east-1'')
      | Some dflt \<Rightarrow>
          (case pricing_data region of None \<Rightarrow> Inr dflt | Some rp \<Rightarrow> Inr rp))"

subsection \<open>The flat calculator\<close>

definition calculate_old_cloudwatch_cost ::
  "pricing_data option \<Rightarrow> rat \<Rightarrow> rat \<Rightarrow> string \<Rightarrow> error + rat" where
  "calculate_old_cloudwatch_cost pricing_file standard_gb ia_gb region =
     (case load_pricing_data pricing_file of
        Inl e \<Rightarrow> Inl e
      | Inr pricing_data \<Rightarrow>
          (case get_region_pricing pricing_data region of
             Inl e \<Rightarrow> Inl e
           | Inr rp \<Rightarrow>
               (let standard_cost = standard_gb * standard_ingestion (logs rp);
                    ia_cost = ia_gb * infrequent_ingestion (logs rp)
                in Inr (standard_cost + ia_cost))))"

subsection \<open>The tiered calculator\<close>

definition TB_to_GB :: rat where
  "TB_to_GB = 1000"

definition tier1_threshold :: rat where
  "tier1_threshold = 10 * TB_to_GB"

definition tier2_threshold :: rat where
  "tier2_threshold = 30 * TB_to_GB"

definition tier3_threshold :: rat where
  "tier3_threshold = 50 * TB_to_GB"

text \<open>
  The local variables \<^verbatim>\<open>tier1_usage\<close> .. \<^verbatim>\<open>tier4_usage\<close>. The first is always
  assigned; each of the others is assigned only inside its \<^verbatim>\<open>if\<close>, so it is an
  option: \<open>None\<close> when the branch is not taken and the variable stays unbound.
\<close>

definition tier1_usage :: "rat \<Rightarrow> rat" where
  "tier1_usage monthly_gb = min monthly_gb tier1_threshold"

definition tier2_usage :: "rat \<Rightarrow> rat option" where
  "tier2_usage monthly_gb =
     (if monthly_gb > tier1_threshold
      then Some (min (monthly_gb - tier1_threshold) (tier2_threshold - tier1_threshold))
      else None)"

definition tier3_usage :: "rat \<Rightarrow> rat option" where
  "tier3_usage monthly_gb =
     (if monthly_gb > tier2_threshold
      then Some (min (monthly_gb - tier2_threshold) (tier3_threshold - tier2_threshold))
      else None)"

definition tier4_usage :: "rat \<Rightarrow> rat option" where
  "tier4_usage monthly_gb =
     (if monthly_gb > tier3_threshold then Some (monthly_gb - tier3_threshold) else None)"

text \<open>
  A tier cost starts at \<^verbatim>\<open>0\<close> and is overwritten by \<^verbatim>\<open>usage * price\<close> in the branch
  that assigns the usage.
\<close>

definition tier_cost :: "rat option \<Rightarrow> rat \<Rightarrow> rat" where
  "tier_cost usage price = (case usage of None \<Rightarrow> 0 | Some u \<Rightarrow> u * price)"

text \<open>
  The volume a band is charged for: the usage variable when it was assigned, and nothing
  when the band's branch was skipped (its cost is then the initial \<^verbatim>\<open>0\<close>).
\<close>

definition band_usage :: "rat option \<Rightarrow> rat" where
  "band_usage usage = (case usage of None \<Rightarrow> 0 | Some u \<Rightarrow> u)"

text \<open>
  The two lines choosing \<^verbatim>\<open>pricing_key\<close> from \<^verbatim>\<open>is_ia\<close> and reading
  \<^verbatim>\<open>region_pricing['logs']['vended_logs'][pricing_key]\<close>.
\<close>

definition vended_logs_pricing_of :: "region_pricing \<Rightarrow> bool \<Rightarrow> tier_schedule" where
  "vended_logs_pricing_of rp is_ia =
     (if is_ia
      then to_cloudwatch_logs_infrequent (vended_logs (logs rp))
      else to_cloudwatch_logs_standard (vended_logs (logs rp)))"

record cost_details =
  daily_gb_ingested :: rat
  monthly_gb_ingested :: rat
  tier1_cost :: rat
  tier2_cost :: rat
  tier3_cost :: rat
  tier4_cost :: rat
  total_monthly_cost :: rat
  total_daily_cost :: rat

definition calculate_new_cloudwatch_cost ::
  "pricing_data option \<Rightarrow> rat \<Rightarrow> string \<Rightarrow> bool \<Rightarrow> error + cost_details" where
  "calculate_new_cloudwatch_cost pricing_file daily_gb region is_ia =
     (case load_pricing_data pricing_file of
        Inl e \<Rightarrow> Inl e
      | Inr pricing_data \<Rightarrow>
          (case get_region_pricing pricing_data region of
             Inl e \<Rightarrow> Inl e
           | Inr rp \<Rightarrow>
               (let vlp = vended_logs_pricing_of rp is_ia;
                    monthly_gb = daily_gb * 30;
                    t1 = tier1_usage monthly_gb * first_10tb vlp;
                    t2 = tier_cost (tier2_usage monthly_gb) (next_20tb vlp);
                    t3 = tier_cost (tier3_usage monthly_gb) (next_20tb_plus vlp);
                    t4 = tier_cost (tier4_usage monthly_gb) (over_50tb vlp);
                    total = t1 + t2 + t3 + t4
                in Inr \<lparr>daily_gb_ingested = daily_gb,
                        monthly_gb_ingested = monthly_gb,
                        tier1_cost = t1,
                        tier2_cost = t2,
                        tier3_cost = t3,
                        tier4_cost = t4,
                        total_monthly_cost = total,
                        total_daily_cost = total / 30\<rparr>)))"

subsection \<open>Binary64 arithmetic\<close>

text \<open>
  A finite double is modelled by the rational number it denotes. \<open>ilog2 x\<close> is the
  binary exponent of a positive \<open>x\<close> (\<open>2 powi ilog2 x \<le> x < 2 powi (ilog2 x + 1)\<close>),
  \<open>rhe\<close> rounds a rational to the nearest integer, a tie going to the even one, and
  \<open>ulp_exp x\<close> is the exponent of the unit in the last place of the 53-bit significand
  at \<open>x\<close>, not below \<open>- 1074\<close> (subnormal numbers). \<open>rne x\<close> is then \<open>x\<close> rounded to
  nearest, ties to even, to a double of unbounded exponent, and \<open>fl\<close> adds the overflow
  to an infinity: it is the result of a binary64 operation whose exact result is \<open>x\<close>.
  The two zeros of binary64 are one value here; the code neither divides by a computed
  value nor branches on the sign of a zero.
\<close>

definition ilog2 :: "rat \<Rightarrow> int" where
  "ilog2 x = (if 1 \<le> x then bitlen \<lfloor>x\<rfloor> - 1 else - bitlen (\<lceil>1 / x\<rceil> - 1))"

definition rhe :: "rat \<Rightarrow> int" where
  "rhe q = (let f = \<lfloor>q\<rfloor>; r = q - of_int f
            in if r < 1 / 2 then f
               else if 1 / 2 < r then f + 1
               else if even f then f else f + 1)"

definition ulp_exp :: "rat \<Rightarrow> int" where
  "ulp_exp x = max (ilog2 \<bar>x\<bar>) (- 1022) - 52"

definition rne :: "rat \<Rightarrow> rat" where
  "rne x = (if x = 0 then 0
            else of_int (rhe (x / 2 powi ulp_exp x)) * 2 powi ulp_exp x)"

datatype f64 = Finite rat | PInf | NInf | NaN

definition fl :: "rat \<Rightarrow> f64" where
  "fl x = (let r = rne x
           in if 2 powi 1024 \<le> r then PInf
              else if r \<le> - (2 powi 1024) then NInf
              else Finite r)"

text \<open>The rationals that are finite doubles: those that rounding leaves alone.\<close>

definition is_double :: "rat \<Rightarrow> bool" where
  "is_double x \<longleftrightarrow> rne x = x \<and> - (2 powi 1024) < x \<and> x < 2 powi 1024"

text \<open>The smallest positive double.\<close>

definition min_subnormal :: rat where
  "min_subnormal = 2 powi (- 1074)"

text \<open>
  The operations of the tiered calculator. A Python \<^verbatim>\<open>int\<close> operand (the literal
  \<^verbatim>\<open>30\<close>, the thresholds, an initial cost \<^verbatim>\<open>0\<close>) is converted to the double of the
  same value before the operation, and a comparison of a double with an \<^verbatim>\<open>int\<close>
  compares the two values.
\<close>

fun fmul :: "f64 \<Rightarrow> f64 \<Rightarrow> f64" where
  "fmul (Finite x) (Finite y) = fl (x * y)"
| "fmul NaN b = NaN"
| "fmul a NaN = NaN"
| "fmul PInf (Finite y) = (if 0 < y then PInf else if y < 0 then NInf else NaN)"
| "fmul NInf (Finite y) = (if 0 < y then NInf else if y < 0 then PInf else NaN)"
| "fmul (Finite x) PInf = (if 0 < x then PInf else if x < 0 then NInf else NaN)"
| "fmul (Finite x) NInf = (if 0 < x then NInf else if x < 0 then PInf else NaN)"
| "fmul PInf PInf = PInf"
| "fmul PInf NInf = NInf"
| "fmul NInf PInf = NInf"
| "fmul NInf NInf = PInf"

fun fadd :: "f64 \<Rightarrow> f64 \<Rightarrow> f64" where
  "fadd (Finite x) (Finite y) = fl (x + y)"
| "fadd NaN b = NaN"
| "fadd a NaN = NaN"
| "fadd PInf NInf = NaN"
| "fadd NInf PInf = NaN"
| "fadd PInf b = PInf"
| "fadd NInf b = NInf"
| "fadd (Finite x) PInf = PInf"
| "fadd (Finite x) NInf = NInf"

fun fsub :: "f64 \<Rightarrow> f64 \<Rightarrow> f64" where
  "fsub (Finite x) (Finite y) = fl (x - y)"
| "fsub NaN b = NaN"
| "fsub a NaN = NaN"
| "fsub PInf PInf = NaN"
| "fsub NInf NInf = NaN"
| "fsub PInf b = PInf"
| "fsub NInf b = NInf"
| "fsub (Finite x) PInf = NInf"
| "fsub (Finite x) NInf = PInf"

text \<open>The only division of the calculator: by the literal \<^verbatim>\<open>30\<close>.\<close>

fun fdiv30 :: "f64 \<Rightarrow> f64" where
  "fdiv30 (Finite x) = fl (x / 30)"
| "fdiv30 PInf = PInf"
| "fdiv30 NInf = NInf"
| "fdiv30 NaN = NaN"

text \<open>\<^verbatim>\<open>a > b\<close> and \<^verbatim>\<open>a < b\<close>: false as soon as an operand is NaN.\<close>

fun fgt :: "f64 \<Rightarrow> f64 \<Rightarrow> bool" where
  "fgt (Finite x) (Finite y) = (y < x)"
| "fgt NaN b = False"
| "fgt a NaN = False"
| "fgt PInf PInf = False"
| "fgt PInf b = True"
| "fgt NInf b = False"
| "fgt (Finite x) PInf = False"
| "fgt (Finite x) NInf = True"

definition flt :: "f64 \<Rightarrow> f64 \<Rightarrow> bool" where
  "flt a b = fgt b a"

text \<open>
  \<^verbatim>\<open>min(a, b)\<close> keeps its first argument unless the second is smaller
  (\<^verbatim>\<open>b < a\<close>).
\<close>

definition fmin :: "f64 \<Rightarrow> f64 \<Rightarrow> f64" where
  "fmin a b = (if flt b a then b else a)"

subsection \<open>The tiered calculator on doubles\<close>

text \<open>
  The same function, statement by statement, with the operations above. The daily volume
  is a \<^verbatim>\<open>float\<close>, as the usage retrieval produces it (a byte count divided by
  \<^verbatim>\<open>1024 * 1024 * 1024\<close>); an \<^verbatim>\<open>int\<close> argument behaves the same as long as it and its
  products stay below \<open>2 ^ 53\<close> in magnitude. The rates are the finite numbers of the
  pricing data.
\<close>

definition tier1_usage_f64 :: "f64 \<Rightarrow> f64" where
  "tier1_usage_f64 monthly_gb = fmin monthly_gb (Finite tier1_threshold)"

definition tier2_usage_f64 :: "f64 \<Rightarrow> f64 option" where
  "tier2_usage_f64 monthly_gb =
     (if fgt monthly_gb (Finite tier1_threshold)
      then Some (fmin (fsub monthly_gb (Finite tier1_threshold))
                      (Finite (tier2_threshold - tier1_threshold)))
      else None)"

definition tier3_usage_f64 :: "f64 \<Rightarrow> f64 option" where
  "tier3_usage_f64 monthly_gb =
     (if fgt monthly_gb (Finite tier2_threshold)
      then Some (fmin (fsub monthly_gb (Finite tier2_threshold))
                      (Finite (tier3_threshold - tier2_threshold)))
      else None)"

definition tier4_usage_f64 :: "f64 \<Rightarrow> f64 option" where
  "tier4_usage_f64 monthly_gb =
     (if fgt monthly_gb (Finite tier3_threshold)
      then Some (fsub monthly_gb (Finite tier3_threshold))
      else None)"

definition tier_cost_f64 :: "f64 option \<Rightarrow> rat \<Rightarrow> f64" where
  "tier_cost_f64 usage price =
     (case usage of None \<Rightarrow> Finite 0 | Some u \<Rightarrow> fmul u (Finite price))"

definition band_usage_f64 :: "f64 option \<Rightarrow> f64" where
  "band_usage_f64 usage = (case usage of None \<Rightarrow> Finite 0 | Some u \<Rightarrow> u)"

record cost_details_f64 =
  daily_gb_ingested_f64 :: f64
  monthly_gb_ingested_f64 :: f64
  tier1_cost_f64 :: f64
  tier2_cost_f64 :: f64
  tier3_cost_f64 :: f64
  tier4_cost_f64 :: f64
  total_monthly_cost_f64 :: f64
  total_daily_cost_f64 :: f64

definition calculate_new_cloudwatch_cost_f64 ::
  "pricing_data option \<Rightarrow> f64 \<Rightarrow> string \<Rightarrow> bool \<Rightarrow> error + cost_details_f64" where
  "calculate_new_cloudwatch_cost_f64 pricing_file daily_gb region is_ia =
     (case load_pricing_data pricing_file of
        Inl e \<Rightarrow> Inl e
      | Inr pricing_data \<Rightarrow>
          (case get_region_pricing pricing_data region of
             Inl e \<Rightarrow> Inl e
           | Inr rp \<Rightarrow>
               (let vlp = vended_logs_pricing_of rp is_ia;
                    monthly_gb = fmul daily_gb (Finite 30);
                    t1 = fmul (tier1_usage_f64 monthly_gb) (Finite (first_10tb vlp));
                    t2 = tier_cost_f64 (tier2_usage_f64 monthly_gb) (next_20tb vlp);
                    t3 = tier_cost_f64 (tier3_usage_f64 monthly_gb) (next_20tb_plus vlp);
                    t4 = tier_cost_f64 (tier4_usage_f64 monthly_gb) (over_50tb vlp);
                    total = fadd (fadd (fadd t1 t2) t3) t4
                in Inr \<lparr>daily_gb_ingested_f64 = daily_gb,
                        monthly_gb_ingested_f64 = monthly_gb,
                        tier1_cost_f64 = t1,
                        tier2_cost_f64 = t2,
                        tier3_cost_f64 = t3,
                        tier4_cost_f64 = t4,
                        total_monthly_cost_f64 = total,
                        total_daily_cost_f64 = fdiv30 total\<rparr>)))"

subsection \<open>The aggregation\<close>

text \<open>
  \<^verbatim>\<open>daily_usage\<close> is a dictionary from a date string to
  \<^verbatim>\<open>{'standard': .., 'ia': ..}\<close>. It is modelled by the list of its items in
  insertion order; a Python dictionary has each key once, which is the invariant
  \<open>distinct (map fst daily_usage)\<close>.
\<close>

record day_usage =
  standard :: rat
  ia :: rat

type_synonym daily_usage = "(string \<times> day_usage) list"

record daily_comparison =
  date :: string
  old_cost :: rat
  new_cost :: rat
  standard_gb :: rat
  ia_gb :: rat
  total_gb :: rat
  difference :: rat

text \<open>
  The dictionary returned by \<^verbatim>\<open>analyze_costs\<close>. Its keys \<^verbatim>\<open>total_gb\<close> and
  \<^verbatim>\<open>region\<close> are the fields \<open>total_gb_all\<close> and \<open>region_of\<close> here, since \<open>total_gb\<close>
  is already the field of a daily row and \<open>region\<close> the name of the parameter.
\<close>

record analysis =
  total_old_cost :: rat
  total_new_cost :: rat
  total_standard_gb :: rat
  total_ia_gb :: rat
  total_gb_all :: rat
  daily_comparisons :: "daily_comparison list"
  region_of :: string

text \<open>One pass of the loop body: the row of one day, or the exception a calculator raised.\<close>

definition daily_row ::
  "pricing_data option \<Rightarrow> string \<Rightarrow> string \<times> day_usage \<Rightarrow> error + daily_comparison" where
  "daily_row pricing_file region item =
     (let daily_standard_gb = standard (snd item);
          daily_ia_gb = ia (snd item)
      in case calculate_old_cloudwatch_cost pricing_file daily_standard_gb daily_ia_gb region of
           Inl e \<Rightarrow> Inl e
         | Inr daily_old_cost \<Rightarrow>
             (case calculate_new_cloudwatch_cost pricing_file daily_standard_gb region False of
                Inl e \<Rightarrow> Inl e
              | Inr std_data \<Rightarrow>
                  (case calculate_new_cloudwatch_cost pricing_file daily_ia_gb region True of
                     Inl e \<Rightarrow> Inl e
                   | Inr ia_data \<Rightarrow>
                       (let daily_new_cost = total_daily_cost std_data + total_daily_cost ia_data
                        in Inr \<lparr>date = fst item,
                                old_cost = daily_old_cost,
                                new_cost = daily_new_cost,
                                standard_gb = daily_standard_gb,
                                ia_gb = daily_ia_gb,
                                total_gb = daily_standard_gb + daily_ia_gb,
                                difference = daily_new_cost - daily_old_cost\<rparr>))))"

text \<open>
  The \<^verbatim>\<open>for\<close> loop over the sorted items, appending one row per item to
  \<^verbatim>\<open>daily_comparisons\<close>; an exception leaves the loop.
\<close>

fun daily_loop ::
  "pricing_data option \<Rightarrow> string \<Rightarrow> (string \<times> day_usage) list \<Rightarrow> daily_comparison list
   \<Rightarrow> error + daily_comparison list" where
  "daily_loop pricing_file region [] acc = Inr acc"
| "daily_loop pricing_file region (item # rest) acc =
     (case daily_row pricing_file region item of
        Inl e \<Rightarrow> Inl e
      | Inr row \<Rightarrow> daily_loop pricing_file region rest (acc @ [row]))"

text \<open>
  \<^verbatim>\<open>sorted(daily_usage.items())\<close> orders the pairs by their first component, the date
  string, compared character by character; the keys of a dictionary differ, so the second
  components are never compared.
\<close>

definition sorted_items :: "daily_usage \<Rightarrow> (string \<times> day_usage) list" where
  "sorted_items daily_usage = sort_key fst daily_usage"

definition analyze_costs :: "pricing_data option \<Rightarrow> daily_usage \<Rightarrow> string \<Rightarrow> error + analysis" where
  "analyze_costs pricing_file daily_usage region =
     (let tot_standard_gb = sum_list (map (\<lambda>item. standard (snd item)) daily_usage);
          tot_ia_gb = sum_list (map (\<lambda>item. ia (snd item)) daily_usage);
          tot_gb = tot_standard_gb + tot_ia_gb
      in case calculate_old_cloudwatch_cost pricing_file tot_standard_gb tot_ia_gb region of
           Inl e \<Rightarrow> Inl e
         | Inr old_cost_total \<Rightarrow>
             (case calculate_new_cloudwatch_cost pricing_file (tot_standard_gb / 30) region False of
                Inl e \<Rightarrow> Inl e
              | Inr standard_cost_data \<Rightarrow>
                  (case calculate_new_cloudwatch_cost pricing_file (tot_ia_gb / 30) region True of
                     Inl e \<Rightarrow> Inl e
                   | Inr ia_cost_data \<Rightarrow>
                       (let new_cost_total = total_monthly_cost standard_cost_data
                                             + total_monthly_cost ia_cost_data
                        in case daily_loop pricing_file region (sorted_items daily_usage) [] of
                             Inl e \<Rightarrow> Inl e
                           | Inr rows \<Rightarrow>
                               Inr \<lparr>total_old_cost = old_cost_total,
                                    total_new_cost = new_cost_total,
                                    total_standard_gb = tot_standard_gb,
                                    total_ia_gb = tot_ia_gb,
                                    total_gb_all = tot_gb,
                                    daily_comparisons = rows,
                                    region_of = region\<rparr>))))"

subsection \<open>Concrete inputs\<close>

text \<open>
  A pricing file with one region, whose rates decrease strictly from band to band, and
  small usage dictionaries, used to instantiate the theorems below.
\<close>

definition example_schedule :: tier_schedule where
  "example_schedule =
     \<lparr>first_10tb = 1/2, next_20tb = 1/4, next_20tb_plus = 1/10, over_50tb = 1/20\<rparr>"

definition example_region :: region_pricing where
  "example_region =
     \<lparr>logs = \<lparr>standard_ingestion = 1/2, infrequent_ingestion = 1/4,
              vended_logs = \<lparr>to_cloudwatch_logs_standard = example_schedule,
                             to_cloudwatch_logs_infrequent = example_schedule\<rparr>\<rparr>\<rparr>"

definition example_data :: pricing_data where
  "example_data = map_of [(''us-east-1'', example_region)]"

definition example_file :: "pricing_data option" where
  "example_file = Some example_data"

definition example_usage :: daily_usage where
  "example_usage =
     [(''2025-04-02'', \<lparr>standard = 0, ia = 0\<rparr>),
      (''2025-04-01'', \<lparr>standard = 400, ia = 0\<rparr>)]"

text \<open>
  A second pricing file, whose infrequent-access schedule and flat rate differ from the
  standard ones, and a usage with volume in both storage classes.
\<close>

definition infrequent_schedule :: tier_schedule where
  "infrequent_schedule =
     \<lparr>first_10tb = 1/8, next_20tb = 1/16, next_20tb_plus = 1/32, over_50tb = 1/64\<rparr>"

definition split_region :: region_pricing where
  "split_region =
     \<lparr>logs = \<lparr>standard_ingestion = 1/2, infrequent_ingestion = 1/4,
              vended_logs = \<lparr>to_cloudwatch_logs_standard = example_schedule,
                             to_cloudwatch_logs_infrequent = infrequent_schedule\<rparr>\<rparr>\<rparr>"

definition split_data :: pricing_data where
  "split_data = map_of [(''us-east-1'', split_region)]"

definition split_file :: "pricing_data option" where
  "split_file = Some split_data"

definition mixed_usage :: daily_usage where
  "mixed_usage =
     [(''2025-04-02'', \<lparr>standard = 0, ia = 90\<rparr>),
      (''2025-04-01'', \<lparr>standard = 400, ia = 30\<rparr>)]"

text \<open>
  Pricing files for the calculator on doubles: one whose rates are doubles falling from
  band to band, and one whose rates are all zero.
\<close>

definition double_schedule :: tier_schedule where
  "double_schedule =
     \<lparr>first_10tb = 1/2, next_20tb = 1/4, next_20tb_plus = 1/8, over_50tb = 1/16\<rparr>"

definition double_region :: region_pricing where
  "double_region =
     \<lparr>logs = \<lparr>standard_ingestion = 1/2, infrequent_ingestion = 1/4,
              vended_logs = \<lparr>to_cloudwatch_logs_standard = double_schedule,
                             to_cloudwatch_logs_infrequent = double_schedule\<rparr>\<rparr>\<rparr>"

definition double_file :: "pricing_data option" where
  "double_file = Some (map_of [(''us-east-1'', double_region)])"

definition free_schedule :: tier_schedule where
  "free_schedule =
     \<lparr>first_10tb = 0, next_20tb = 0, next_20tb_plus = 0, over_50tb = 0\<rparr>"

definition free_region :: region_pricing where
  "free_region =
     \<lparr>logs = \<lparr>standard_ingestion = 0, infrequent_ingestion = 0,
              vended_logs = \<lparr>to_cloudwatch_logs_standard = free_schedule,
                             to_cloudwatch_logs_infrequent = free_schedule\<rparr>\<rparr>\<rparr>"

definition free_file :: "pricing_data option" where
  "free_file = Some (map_of [(''us-east-1'', free_region)])"

section \<open>Properties\<close>

subsection \<open>Auxiliary facts\<close>

lemmas thresholds = tier1_threshold_def tier2_threshold_def tier3_threshold_def TB_to_GB_def

lemma calculate_old_Inr:
  assumes "pricing_file = Some pd" and "get_region_pricing pd region = Inr rp"
  shows "calculate_old_cloudwatch_cost pricing_file std_gb inf_gb region =
           Inr (std_gb * standard_ingestion (logs rp)
                + inf_gb * infrequent_ingestion (logs rp))"
  using assms by (simp add: calculate_old_cloudwatch_cost_def load_pricing_data_def)

lemma calculate_new_Inr:
  assumes "pricing_file = Some pd" and "get_region_pricing pd region = Inr rp"
  shows "calculate_new_cloudwatch_cost pricing_file daily_gb region is_ia =
           Inr \<lparr>daily_gb_ingested = daily_gb,
                monthly_gb_ingested = daily_gb * 30,
                tier1_cost = tier1_usage (daily_gb * 30)
                             * first_10tb (vended_logs_pricing_of rp is_ia),
                tier2_cost = tier_cost (tier2_usage (daily_gb * 30))
                               (next_20tb (vended_logs_pricing_of rp is_ia)),
                tier3_cost = tier_cost (tier3_usage (daily_gb * 30))
                               (next_20tb_plus (vended_logs_pricing_of rp is_ia)),
                tier4_cost = tier_cost (tier4_usage (daily_gb * 30))
                               (over_50tb (vended_logs_pricing_of rp is_ia)),
                total_monthly_cost =
                  tier1_usage (daily_gb * 30) * first_10tb (vended_logs_pricing_of rp is_ia)
                  + tier_cost (tier2_usage (daily_gb * 30))
                      (next_20tb (vended_logs_pricing_of rp is_ia))
                  + tier_cost (tier3_usage (daily_gb * 30))
                      (next_20tb_plus (vended_logs_pricing_of rp is_ia))
                  + tier_cost (tier4_usage (daily_gb * 30))
                      (over_50tb (vended_logs_pricing_of rp is_ia)),
                total_daily_cost =
                  (tier1_usage (daily_gb * 30) * first_10tb (vended_logs_pricing_of rp is_ia)
                   + tier_cost (tier2_usage (daily_gb * 30))
                       (next_20tb (vended_logs_pricing_of rp is_ia))
                   + tier_cost (tier3_usage (daily_gb * 30))
                       (next_20tb_plus (vended_logs_pricing_of rp is_ia))
                   + tier_cost (tier4_usage (daily_gb * 30))
                       (over_50tb (vended_logs_pricing_of rp is_ia))) / 30\<rparr>"
  using assms
  by (simp add: calculate_new_cloudwatch_cost_def load_pricing_data_def Let_def)

lemma get_region_pricing_unknown:
  assumes "pd region = None" and "pd ''us-east-1'' = Some dflt"
  shows "get_region_pricing pd region = Inr dflt"
    and "get_region_pricing pd ''us-east-1'' = Inr dflt"
  using assms by (simp_all add: get_region_pricing_def)

lemma example_lookup: "get_region_pricing example_data ''us-east-1'' = Inr example_region"
  by (simp add: get_region_pricing_def example_data_def)

lemma example_rates:
  "vended_logs_pricing_of example_region is_ia = example_schedule"
  by (simp add: vended_logs_pricing_of_def example_region_def)

lemma tier_cost_band_usage: "tier_cost u p = band_usage u * p"
  by (cases u) (simp_all add: tier_cost_def band_usage_def)

lemma band_usages_mono:
  assumes "m \<le> m'"
  shows "tier1_usage m \<le> tier1_usage m'"
    and "band_usage (tier2_usage m) \<le> band_usage (tier2_usage m')"
    and "band_usage (tier3_usage m) \<le> band_usage (tier3_usage m')"
    and "band_usage (tier4_usage m) \<le> band_usage (tier4_usage m')"
  using assms
  by (simp_all add: tier1_usage_def tier2_usage_def tier3_usage_def tier4_usage_def
      band_usage_def thresholds min_def)

lemma map_insort_key: "map f (insort_key f x xs) = insort (f x) (map f xs)"
  by (induction xs) simp_all

lemma map_sort_key: "map f (sort_key f xs) = sort (map f xs)"
  by (induction xs) (simp_all add: map_insort_key)

lemma daily_row_Inr:
  assumes "pricing_file = Some pd" and "get_region_pricing pd region = Inr rp"
  shows "\<exists>row. daily_row pricing_file region item = Inr row
           \<and> date row = fst item
           \<and> standard_gb row = standard (snd item)
           \<and> ia_gb row = ia (snd item)"
  unfolding daily_row_def Let_def
    calculate_old_Inr [OF assms] calculate_new_Inr [OF assms]
  by simp

lemma daily_loop_Inr:
  assumes "pricing_file = Some pd" and "get_region_pricing pd region = Inr rp"
  shows "\<exists>rows. daily_loop pricing_file region items acc = Inr (acc @ rows)
           \<and> map date rows = map fst items
           \<and> map standard_gb rows = map (\<lambda>item. standard (snd item)) items
           \<and> map ia_gb rows = map (\<lambda>item. ia (snd item)) items"
proof (induction items arbitrary: acc)
  case Nil
  show ?case by simp
next
  case (Cons item rest)
  from daily_row_Inr [OF assms, of item] obtain row where
    row: "daily_row pricing_file region item = Inr row" "date row = fst item"
      "standard_gb row = standard (snd item)" "ia_gb row = ia (snd item)"
    by blast
  from Cons.IH [of "acc @ [row]"] obtain rows where
    rows: "daily_loop pricing_file region rest (acc @ [row]) = Inr ((acc @ [row]) @ rows)"
      "map date rows = map fst rest"
      "map standard_gb rows = map (\<lambda>item. standard (snd item)) rest"
      "map ia_gb rows = map (\<lambda>item. ia (snd item)) rest"
    by blast
  show ?case
    by (rule exI [of _ "row # rows"]) (simp add: row rows)
qed

lemma analyze_costs_Inr:
  assumes "pricing_file = Some pd" and "get_region_pricing pd region = Inr rp"
  shows "\<exists>ocost scost icost rows.
           calculate_old_cloudwatch_cost pricing_file
             (sum_list (map (\<lambda>item. standard (snd item)) usage))
             (sum_list (map (\<lambda>item. ia (snd item)) usage)) region = Inr ocost
         \<and> calculate_new_cloudwatch_cost pricing_file
             (sum_list (map (\<lambda>item. standard (snd item)) usage) / 30) region False
             = Inr scost
         \<and> calculate_new_cloudwatch_cost pricing_file
             (sum_list (map (\<lambda>item. ia (snd item)) usage) / 30) region True = Inr icost
         \<and> daily_loop pricing_file region (sorted_items usage) [] = Inr rows
         \<and> analyze_costs pricing_file usage region =
             Inr \<lparr>total_old_cost = ocost,
                  total_new_cost = total_monthly_cost scost + total_monthly_cost icost,
                  total_standard_gb = sum_list (map (\<lambda>item. standard (snd item)) usage),
                  total_ia_gb = sum_list (map (\<lambda>item. ia (snd item)) usage),
                  total_gb_all = sum_list (map (\<lambda>item. standard (snd item)) usage)
                                 + sum_list (map (\<lambda>item. ia (snd item)) usage),
                  daily_comparisons = rows,
                  region_of = region\<rparr>"
proof -
  from daily_loop_Inr [OF assms, of "sorted_items usage" "[]"] obtain rows where
    "daily_loop pricing_file region (sorted_items usage) [] = Inr rows"
    by auto
  then show ?thesis
    unfolding analyze_costs_def Let_def
      calculate_old_Inr [OF assms] calculate_new_Inr [OF assms]
    by simp
qed

text \<open>
  The hypothesis that the lookup succeeds, used throughout, is exactly that the loaded
  dictionary has the key \<^verbatim>\<open>us-east-1\<close>: without it every entry point raises
  \<^verbatim>\<open>KeyError\<close>, whatever the region and the volumes are.
\<close>

lemma get_region_pricing_succeeds_iff:
  "(\<exists>rp. get_region_pricing pd region = Inr rp) \<longleftrightarrow> pd ''us-east-1'' \<noteq> None"
  by (auto simp add: get_region_pricing_def split: option.splits)

lemma missing_default_raises:
  assumes "pd ''us-east-1'' = None"
  shows "calculate_old_cloudwatch_cost (Some pd) std_gb inf_gb region
           = Inl (KeyError ''us-east-1'')"
    and "calculate_new_cloudwatch_cost (Some pd) daily_gb region is_ia
           = Inl (KeyError ''us-east-1'')"
    and "analyze_costs (Some pd) usage region = Inl (KeyError ''us-east-1'')"
  using assms
  by (simp_all add: calculate_old_cloudwatch_cost_def calculate_new_cloudwatch_cost_def
      analyze_costs_def load_pricing_data_def get_region_pricing_def)

subsection \<open>Monotonicity\<close>

text \<open>
  C4. With non-negative rates in the schedule in use, the monthly cost never decreases
  when the input volume grows: for \<open>a \<le> b\<close> both calls return and the cost at \<open>a\<close> is at
  most the cost at \<open>b\<close>. No sign condition on \<open>a\<close> is needed.
\<close>

theorem total_monthly_cost_monotone:
  assumes "pricing_file = Some pd"
    and "get_region_pricing pd region = Inr rp"
    and "0 \<le> first_10tb (vended_logs_pricing_of rp is_ia)"
    and "0 \<le> next_20tb (vended_logs_pricing_of rp is_ia)"
    and "0 \<le> next_20tb_plus (vended_logs_pricing_of rp is_ia)"
    and "0 \<le> over_50tb (vended_logs_pricing_of rp is_ia)"
    and "a \<le> b"
  shows "\<exists>ra rb. calculate_new_cloudwatch_cost pricing_file a region is_ia = Inr ra
           \<and> calculate_new_cloudwatch_cost pricing_file b region is_ia = Inr rb
           \<and> total_monthly_cost ra \<le> total_monthly_cost rb"
proof -
  from assms(7) have le: "a * 30 \<le> b * 30" by simp
  have "tier1_usage (a * 30) * first_10tb (vended_logs_pricing_of rp is_ia)
        \<le> tier1_usage (b * 30) * first_10tb (vended_logs_pricing_of rp is_ia)"
    using band_usages_mono(1) [OF le] assms(3) by (rule mult_right_mono)
  moreover have "band_usage (tier2_usage (a * 30)) * next_20tb (vended_logs_pricing_of rp is_ia)
        \<le> band_usage (tier2_usage (b * 30)) * next_20tb (vended_logs_pricing_of rp is_ia)"
    using band_usages_mono(2) [OF le] assms(4) by (rule mult_right_mono)
  moreover have "band_usage (tier3_usage (a * 30))
          * next_20tb_plus (vended_logs_pricing_of rp is_ia)
        \<le> band_usage (tier3_usage (b * 30))
          * next_20tb_plus (vended_logs_pricing_of rp is_ia)"
    using band_usages_mono(3) [OF le] assms(5) by (rule mult_right_mono)
  moreover have "band_usage (tier4_usage (a * 30)) * over_50tb (vended_logs_pricing_of rp is_ia)
        \<le> band_usage (tier4_usage (b * 30)) * over_50tb (vended_logs_pricing_of rp is_ia)"
    using band_usages_mono(4) [OF le] assms(6) by (rule mult_right_mono)
  ultimately show ?thesis
    unfolding calculate_new_Inr [OF assms(1,2)]
    by (simp add: tier_cost_band_usage)
qed

theorem total_monthly_cost_monotone_witness:
  "example_file = Some example_data
   \<and> get_region_pricing example_data ''us-east-1'' = Inr example_region
   \<and> 0 \<le> first_10tb (vended_logs_pricing_of example_region False)
   \<and> 0 \<le> next_20tb (vended_logs_pricing_of example_region False)
   \<and> 0 \<le> next_20tb_plus (vended_logs_pricing_of example_region False)
   \<and> 0 \<le> over_50tb (vended_logs_pricing_of example_region False)
   \<and> (400 :: rat) \<le> 1200
   \<and> (\<exists>ra rb. calculate_new_cloudwatch_cost example_file 400 ''us-east-1'' False = Inr ra
         \<and> calculate_new_cloudwatch_cost example_file 1200 ''us-east-1'' False = Inr rb
         \<and> total_monthly_cost ra \<le> total_monthly_cost rb)"
proof -
  have f: "example_file = Some example_data" by (simp add: example_file_def)
  have r1: "0 \<le> first_10tb (vended_logs_pricing_of example_region False)"
    and r2: "0 \<le> next_20tb (vended_logs_pricing_of example_region False)"
    and r3: "0 \<le> next_20tb_plus (vended_logs_pricing_of example_region False)"
    and r4: "0 \<le> over_50tb (vended_logs_pricing_of example_region False)"
    by (simp_all add: example_rates example_schedule_def)
  have le: "(400 :: rat) \<le> 1200" by simp
  from f example_lookup r1 r2 r3 r4 le
    total_monthly_cost_monotone [OF f example_lookup r1 r2 r3 r4 le]
  show ?thesis by blast
qed

subsection \<open>Region fallback\<close>

text \<open>
  C5. For a region that the pricing data does not list, when the data lists
  \<^verbatim>\<open>us-east-1\<close>, both calculators return, with the rates of \<^verbatim>\<open>us-east-1\<close>, exactly
  what they return for the region \<^verbatim>\<open>us-east-1\<close>.
\<close>

theorem unknown_region_falls_back_to_default:
  assumes "pricing_file = Some pd"
    and "pd region = None"
    and "pd ''us-east-1'' = Some dflt"
  shows "calculate_old_cloudwatch_cost pricing_file std_gb inf_gb region
           = calculate_old_cloudwatch_cost pricing_file std_gb inf_gb ''us-east-1''
       \<and> calculate_old_cloudwatch_cost pricing_file std_gb inf_gb region
           = Inr (std_gb * standard_ingestion (logs dflt)
                  + inf_gb * infrequent_ingestion (logs dflt))
       \<and> calculate_new_cloudwatch_cost pricing_file daily_gb region is_ia
           = calculate_new_cloudwatch_cost pricing_file daily_gb ''us-east-1'' is_ia
       \<and> (\<exists>r. calculate_new_cloudwatch_cost pricing_file daily_gb region is_ia = Inr r
             \<and> tier1_cost r = tier1_usage (daily_gb * 30)
                               * first_10tb (vended_logs_pricing_of dflt is_ia))"
  unfolding
    calculate_old_Inr [OF assms(1) get_region_pricing_unknown(1) [OF assms(2,3)]]
    calculate_old_Inr [OF assms(1) get_region_pricing_unknown(2) [OF assms(2,3)]]
    calculate_new_Inr [OF assms(1) get_region_pricing_unknown(1) [OF assms(2,3)]]
    calculate_new_Inr [OF assms(1) get_region_pricing_unknown(2) [OF assms(2,3)]]
  by simp

theorem unknown_region_falls_back_to_default_witness:
  "example_file = Some example_data
   \<and> example_data ''eu-north-7'' = None
   \<and> example_data ''us-east-1'' = Some example_region
   \<and> calculate_old_cloudwatch_cost example_file 100 8 ''eu-north-7''
       = calculate_old_cloudwatch_cost example_file 100 8 ''us-east-1''
   \<and> calculate_old_cloudwatch_cost example_file 100 8 ''eu-north-7'' = Inr 52
   \<and> calculate_new_cloudwatch_cost example_file 100 ''eu-north-7'' True
       = calculate_new_cloudwatch_cost example_file 100 ''us-east-1'' True
   \<and> (\<exists>r. calculate_new_cloudwatch_cost example_file 100 ''eu-north-7'' True = Inr r)"
proof -
  have f: "example_file = Some example_data" by (simp add: example_file_def)
  have u: "example_data ''eu-north-7'' = None" by (simp add: example_data_def)
  have d: "example_data ''us-east-1'' = Some example_region" by (simp add: example_data_def)
  note t = unknown_region_falls_back_to_default [OF f u d, of 100 8 100 True]
  from t have a: "calculate_old_cloudwatch_cost example_file 100 8 ''eu-north-7''
       = calculate_old_cloudwatch_cost example_file 100 8 ''us-east-1''"
    by blast
  from t have "calculate_old_cloudwatch_cost example_file 100 8 ''eu-north-7''
       = Inr (100 * standard_ingestion (logs example_region)
              + 8 * infrequent_ingestion (logs example_region))"
    by blast
  then have b: "calculate_old_cloudwatch_cost example_file 100 8 ''eu-north-7'' = Inr 52"
    by (simp add: example_region_def)
  from t have c: "calculate_new_cloudwatch_cost example_file 100 ''eu-north-7'' True
       = calculate_new_cloudwatch_cost example_file 100 ''us-east-1'' True"
    by blast
  from t have e: "\<exists>r. calculate_new_cloudwatch_cost example_file 100 ''eu-north-7'' True = Inr r"
    by blast
  from f u d a b c e show ?thesis by blast
qed

subsection \<open>Negative input\<close>

text \<open>
  C2, as the code has it. Neither calculator checks the sign of its input: whenever the
  pricing lookup succeeds, a negative volume is priced like any other. The flat
  calculator returns \<open>std_gb * standard rate + inf_gb * infrequent rate\<close>, and the
  tiered calculator returns a breakdown for the negative monthly volume
  \<open>daily_gb * 30\<close>, all of it charged in band 1.
\<close>

theorem negative_input_is_priced_not_rejected:
  assumes "pricing_file = Some pd"
    and "get_region_pricing pd region = Inr rp"
    and "std_gb < 0 \<or> inf_gb < 0"
    and "daily_gb < 0"
  shows "calculate_old_cloudwatch_cost pricing_file std_gb inf_gb region
           = Inr (std_gb * standard_ingestion (logs rp)
                  + inf_gb * infrequent_ingestion (logs rp))
       \<and> (\<exists>r. calculate_new_cloudwatch_cost pricing_file daily_gb region is_ia = Inr r
             \<and> daily_gb_ingested r = daily_gb
             \<and> monthly_gb_ingested r = daily_gb * 30
             \<and> monthly_gb_ingested r < 0
             \<and> tier1_cost r = daily_gb * 30 * first_10tb (vended_logs_pricing_of rp is_ia)
             \<and> total_monthly_cost r = tier1_cost r)"
  unfolding calculate_old_Inr [OF assms(1,2)] calculate_new_Inr [OF assms(1,2)]
  using assms(4)
  by (simp add: tier1_usage_def tier2_usage_def tier3_usage_def tier4_usage_def
      tier_cost_def thresholds min_def)

theorem negative_input_is_priced_not_rejected_witness:
  "example_file = Some example_data
   \<and> get_region_pricing example_data ''us-east-1'' = Inr example_region
   \<and> ((- 4 :: rat) < 0 \<or> (- 8 :: rat) < 0)
   \<and> (- 2 :: rat) < 0
   \<and> calculate_old_cloudwatch_cost example_file (- 4) (- 8) ''us-east-1'' = Inr (- 4)
   \<and> (\<exists>r. calculate_new_cloudwatch_cost example_file (- 2) ''us-east-1'' False = Inr r
         \<and> monthly_gb_ingested r = - 60 \<and> total_monthly_cost r = - 30)"
proof -
  have f: "example_file = Some example_data" by (simp add: example_file_def)
  have s: "(- 4 :: rat) < 0 \<or> (- 8 :: rat) < 0" by simp
  have n: "(- 2 :: rat) < 0" by simp
  note t = negative_input_is_priced_not_rejected [OF f example_lookup s n, of False]
  from t have "calculate_old_cloudwatch_cost example_file (- 4) (- 8) ''us-east-1''
       = Inr (- 4 * standard_ingestion (logs example_region)
              + - 8 * infrequent_ingestion (logs example_region))"
    by blast
  then have a: "calculate_old_cloudwatch_cost example_file (- 4) (- 8) ''us-east-1''
       = Inr (- 4)"
    by (simp add: example_region_def)
  from t obtain r where
    "calculate_new_cloudwatch_cost example_file (- 2) ''us-east-1'' False = Inr r"
    and "monthly_gb_ingested r = - 2 * 30"
    and "tier1_cost r = - 2 * 30 * first_10tb (vended_logs_pricing_of example_region False)"
    and "total_monthly_cost r = tier1_cost r"
    by blast
  then have b: "\<exists>r. calculate_new_cloudwatch_cost example_file (- 2) ''us-east-1'' False = Inr r
         \<and> monthly_gb_ingested r = - 60 \<and> total_monthly_cost r = - 30"
    by (simp add: example_rates example_schedule_def)
  from f example_lookup s n a b show ?thesis by blast
qed

text \<open>
  The claim that a negative input is rejected fails on a concrete call of each
  calculator: both return a number.
\<close>

theorem negative_input_returns_a_value:
  "calculate_old_cloudwatch_cost example_file (- 1) 0 ''us-east-1'' = Inr (- (1 / 2))
   \<and> calculate_old_cloudwatch_cost example_file 0 (- 1) ''us-east-1'' = Inr (- (1 / 4))
   \<and> calculate_new_cloudwatch_cost example_file (- 1) ''us-east-1'' False
       = Inr \<lparr>daily_gb_ingested = - 1, monthly_gb_ingested = - 30,
              tier1_cost = - 15, tier2_cost = 0, tier3_cost = 0, tier4_cost = 0,
              total_monthly_cost = - 15, total_daily_cost = - (1 / 2)\<rparr>"
  by (simp add: calculate_old_cloudwatch_cost_def calculate_new_cloudwatch_cost_def
      load_pricing_data_def get_region_pricing_def example_file_def example_data_def
      example_region_def example_schedule_def vended_logs_pricing_of_def
      tier1_usage_def tier2_usage_def tier3_usage_def tier4_usage_def tier_cost_def
      thresholds)

subsection \<open>Aggregation\<close>

text \<open>
  C6. On an empty usage dictionary, when the pricing lookup succeeds, \<open>analyze_costs\<close>
  returns: the five totals are zero and there is no daily row.
\<close>

theorem analyze_costs_empty_usage:
  assumes "pricing_file = Some pd"
    and "get_region_pricing pd region = Inr rp"
  shows "analyze_costs pricing_file [] region =
           Inr \<lparr>total_old_cost = 0, total_new_cost = 0, total_standard_gb = 0,
                total_ia_gb = 0, total_gb_all = 0, daily_comparisons = [],
                region_of = region\<rparr>"
  unfolding analyze_costs_def Let_def
    calculate_old_Inr [OF assms] calculate_new_Inr [OF assms]
  by (simp add: sorted_items_def tier1_usage_def tier2_usage_def tier3_usage_def
      tier4_usage_def tier_cost_def thresholds)

theorem analyze_costs_empty_usage_witness:
  "example_file = Some example_data
   \<and> get_region_pricing example_data ''us-east-1'' = Inr example_region
   \<and> analyze_costs example_file [] ''us-east-1'' =
       Inr \<lparr>total_old_cost = 0, total_new_cost = 0, total_standard_gb = 0,
            total_ia_gb = 0, total_gb_all = 0, daily_comparisons = [],
            region_of = ''us-east-1''\<rparr>"
proof -
  have f: "example_file = Some example_data" by (simp add: example_file_def)
  from f example_lookup analyze_costs_empty_usage [OF f example_lookup]
  show ?thesis by blast
qed

text \<open>
  C7. When the pricing lookup succeeds, \<open>analyze_costs\<close> returns; its
  \<open>total_standard_gb\<close> and \<open>total_ia_gb\<close> are the sums over the usage, its
  \<open>total_old_cost\<close> is what the flat calculator returns on these two totals (the
  standard total at the standard flat rate plus the infrequent total at the infrequent
  flat rate), and its \<open>total_new_cost\<close> is the sum of the \<open>total_monthly_cost\<close> of two
  tiered calls: one on \<open>total_standard_gb / 30\<close>, whose four tier costs use the rates of
  the standard schedule, and one on \<open>total_ia_gb / 30\<close>, whose four tier costs use the
  rates of the infrequent schedule.
\<close>

theorem analyze_costs_totals:
  assumes "pricing_file = Some pd"
    and "get_region_pricing pd region = Inr rp"
  shows "\<exists>a ocost scost icost.
           analyze_costs pricing_file usage region = Inr a
         \<and> total_standard_gb a = sum_list (map (\<lambda>item. standard (snd item)) usage)
         \<and> total_ia_gb a = sum_list (map (\<lambda>item. ia (snd item)) usage)
         \<and> total_gb_all a = total_standard_gb a + total_ia_gb a
         \<and> calculate_old_cloudwatch_cost pricing_file
             (total_standard_gb a) (total_ia_gb a) region = Inr ocost
         \<and> ocost = total_standard_gb a * standard_ingestion (logs rp)
                   + total_ia_gb a * infrequent_ingestion (logs rp)
         \<and> total_old_cost a = ocost
         \<and> calculate_new_cloudwatch_cost pricing_file
             (total_standard_gb a / 30) region False = Inr scost
         \<and> tier1_cost scost = tier1_usage (total_standard_gb a / 30 * 30)
             * first_10tb (to_cloudwatch_logs_standard (vended_logs (logs rp)))
         \<and> tier2_cost scost = tier_cost (tier2_usage (total_standard_gb a / 30 * 30))
               (next_20tb (to_cloudwatch_logs_standard (vended_logs (logs rp))))
         \<and> tier3_cost scost = tier_cost (tier3_usage (total_standard_gb a / 30 * 30))
               (next_20tb_plus (to_cloudwatch_logs_standard (vended_logs (logs rp))))
         \<and> tier4_cost scost = tier_cost (tier4_usage (total_standard_gb a / 30 * 30))
               (over_50tb (to_cloudwatch_logs_standard (vended_logs (logs rp))))
         \<and> total_monthly_cost scost
             = tier1_cost scost + tier2_cost scost + tier3_cost scost + tier4_cost scost
         \<and> calculate_new_cloudwatch_cost pricing_file
             (total_ia_gb a / 30) region True = Inr icost
         \<and> tier1_cost icost = tier1_usage (total_ia_gb a / 30 * 30)
             * first_10tb (to_cloudwatch_logs_infrequent (vended_logs (logs rp)))
         \<and> tier2_cost icost = tier_cost (tier2_usage (total_ia_gb a / 30 * 30))
               (next_20tb (to_cloudwatch_logs_infrequent (vended_logs (logs rp))))
         \<and> tier3_cost icost = tier_cost (tier3_usage (total_ia_gb a / 30 * 30))
               (next_20tb_plus (to_cloudwatch_logs_infrequent (vended_logs (logs rp))))
         \<and> tier4_cost icost = tier_cost (tier4_usage (total_ia_gb a / 30 * 30))
               (over_50tb (to_cloudwatch_logs_infrequent (vended_logs (logs rp))))
         \<and> total_monthly_cost icost
             = tier1_cost icost + tier2_cost icost + tier3_cost icost + tier4_cost icost
         \<and> total_new_cost a = total_monthly_cost scost + total_monthly_cost icost"
proof -
  from analyze_costs_Inr [OF assms, of usage] obtain ocost scost icost rows where
    o: "calculate_old_cloudwatch_cost pricing_file
       (sum_list (map (\<lambda>item. standard (snd item)) usage))
       (sum_list (map (\<lambda>item. ia (snd item)) usage)) region = Inr ocost"
    and sc: "calculate_new_cloudwatch_cost pricing_file
       (sum_list (map (\<lambda>item. standard (snd item)) usage) / 30) region False = Inr scost"
    and ic: "calculate_new_cloudwatch_cost pricing_file
       (sum_list (map (\<lambda>item. ia (snd item)) usage) / 30) region True = Inr icost"
    and an: "analyze_costs pricing_file usage region =
           Inr \<lparr>total_old_cost = ocost,
                total_new_cost = total_monthly_cost scost + total_monthly_cost icost,
                total_standard_gb = sum_list (map (\<lambda>item. standard (snd item)) usage),
                total_ia_gb = sum_list (map (\<lambda>item. ia (snd item)) usage),
                total_gb_all = sum_list (map (\<lambda>item. standard (snd item)) usage)
                               + sum_list (map (\<lambda>item. ia (snd item)) usage),
                daily_comparisons = rows,
                region_of = region\<rparr>"
    by blast
  from o have ov: "ocost = sum_list (map (\<lambda>item. standard (snd item)) usage)
                             * standard_ingestion (logs rp)
                           + sum_list (map (\<lambda>item. ia (snd item)) usage)
                             * infrequent_ingestion (logs rp)"
    unfolding calculate_old_Inr [OF assms] by simp
  from sc have sv: "scost = \<lparr>daily_gb_ingested = sum_list (map (\<lambda>item. standard (snd item)) usage) / 30,
      monthly_gb_ingested = sum_list (map (\<lambda>item. standard (snd item)) usage) / 30 * 30,
      tier1_cost = tier1_usage (sum_list (map (\<lambda>item. standard (snd item)) usage) / 30 * 30)
                   * first_10tb (vended_logs_pricing_of rp False),
      tier2_cost = tier_cost (tier2_usage (sum_list (map (\<lambda>item. standard (snd item)) usage) / 30 * 30))
                     (next_20tb (vended_logs_pricing_of rp False)),
      tier3_cost = tier_cost (tier3_usage (sum_list (map (\<lambda>item. standard (snd item)) usage) / 30 * 30))
                     (next_20tb_plus (vended_logs_pricing_of rp False)),
      tier4_cost = tier_cost (tier4_usage (sum_list (map (\<lambda>item. standard (snd item)) usage) / 30 * 30))
                     (over_50tb (vended_logs_pricing_of rp False)),
      total_monthly_cost =
        tier1_usage (sum_list (map (\<lambda>item. standard (snd item)) usage) / 30 * 30)
          * first_10tb (vended_logs_pricing_of rp False)
        + tier_cost (tier2_usage (sum_list (map (\<lambda>item. standard (snd item)) usage) / 30 * 30))
            (next_20tb (vended_logs_pricing_of rp False))
        + tier_cost (tier3_usage (sum_list (map (\<lambda>item. standard (snd item)) usage) / 30 * 30))
            (next_20tb_plus (vended_logs_pricing_of rp False))
        + tier_cost (tier4_usage (sum_list (map (\<lambda>item. standard (snd item)) usage) / 30 * 30))
            (over_50tb (vended_logs_pricing_of rp False)),
      total_daily_cost =
        (tier1_usage (sum_list (map (\<lambda>item. standard (snd item)) usage) / 30 * 30)
           * first_10tb (vended_logs_pricing_of rp False)
         + tier_cost (tier2_usage (sum_list (map (\<lambda>item. standard (snd item)) usage) / 30 * 30))
             (next_20tb (vended_logs_pricing_of rp False))
         + tier_cost (tier3_usage (sum_list (map (\<lambda>item. standard (snd item)) usage) / 30 * 30))
             (next_20tb_plus (vended_logs_pricing_of rp False))
         + tier_cost (tier4_usage (sum_list (map (\<lambda>item. standard (snd item)) usage) / 30 * 30))
             (over_50tb (vended_logs_pricing_of rp False))) / 30\<rparr>"
    unfolding calculate_new_Inr [OF assms] by simp
  from ic have iv: "icost = \<lparr>daily_gb_ingested = sum_list (map (\<lambda>item. ia (snd item)) usage) / 30,
      monthly_gb_ingested = sum_list (map (\<lambda>item. ia (snd item)) usage) / 30 * 30,
      tier1_cost = tier1_usage (sum_list (map (\<lambda>item. ia (snd item)) usage) / 30 * 30)
                   * first_10tb (vended_logs_pricing_of rp True),
      tier2_cost = tier_cost (tier2_usage (sum_list (map (\<lambda>item. ia (snd item)) usage) / 30 * 30))
                     (next_20tb (vended_logs_pricing_of rp True)),
      tier3_cost = tier_cost (tier3_usage (sum_list (map (\<lambda>item. ia (snd item)) usage) / 30 * 30))
                     (next_20tb_plus (vended_logs_pricing_of rp True)),
      tier4_cost = tier_cost (tier4_usage (sum_list (map (\<lambda>item. ia (snd item)) usage) / 30 * 30))
                     (over_50tb (vended_logs_pricing_of rp True)),
      total_monthly_cost =
        tier1_usage (sum_list (map (\<lambda>item. ia (snd item)) usage) / 30 * 30)
          * first_10tb (vended_logs_pricing_of rp True)
        + tier_cost (tier2_usage (sum_list (map (\<lambda>item. ia (snd item)) usage) / 30 * 30))
            (next_20tb (vended_logs_pricing_of rp True))
        + tier_cost (tier3_usage (sum_list (map (\<lambda>item. ia (snd item)) usage) / 30 * 30))
            (next_20tb_plus (vended_logs_pricing_of rp True))
        + tier_cost (tier4_usage (sum_list (map (\<lambda>item. ia (snd item)) usage) / 30 * 30))
            (over_50tb (vended_logs_pricing_of rp True)),
      total_daily_cost =
        (tier1_usage (sum_list (map (\<lambda>item. ia (snd item)) usage) / 30 * 30)
           * first_10tb (vended_logs_pricing_of rp True)
         + tier_cost (tier2_usage (sum_list (map (\<lambda>item. ia (snd item)) usage) / 30 * 30))
             (next_20tb (vended_logs_pricing_of rp True))
         + tier_cost (tier3_usage (sum_list (map (\<lambda>item. ia (snd item)) usage) / 30 * 30))
             (next_20tb_plus (vended_logs_pricing_of rp True))
         + tier_cost (tier4_usage (sum_list (map (\<lambda>item. ia (snd item)) usage) / 30 * 30))
             (over_50tb (vended_logs_pricing_of rp True))) / 30\<rparr>"
    unfolding calculate_new_Inr [OF assms] by simp
  show ?thesis
    apply (rule exI [of _ "\<lparr>total_old_cost = ocost,
                total_new_cost = total_monthly_cost scost + total_monthly_cost icost,
                total_standard_gb = sum_list (map (\<lambda>item. standard (snd item)) usage),
                total_ia_gb = sum_list (map (\<lambda>item. ia (snd item)) usage),
                total_gb_all = sum_list (map (\<lambda>item. standard (snd item)) usage)
                               + sum_list (map (\<lambda>item. ia (snd item)) usage),
                daily_comparisons = rows,
                region_of = region\<rparr>"])
    apply (rule exI [of _ ocost])
    apply (rule exI [of _ scost])
    apply (rule exI [of _ icost])
    apply (simp add: an o sc ic)
    apply (simp add: ov sv iv vended_logs_pricing_of_def)
    done
qed

theorem analyze_costs_totals_witness:
  "split_file = Some split_data
   \<and> get_region_pricing split_data ''us-east-1'' = Inr split_region
   \<and> (\<exists>a ocost scost icost.
           analyze_costs split_file mixed_usage ''us-east-1'' = Inr a
         \<and> total_standard_gb a = 400 \<and> total_ia_gb a = 120
         \<and> calculate_old_cloudwatch_cost split_file 400 120 ''us-east-1'' = Inr ocost
         \<and> ocost = 230
         \<and> total_old_cost a = 230
         \<and> calculate_new_cloudwatch_cost split_file (400 / 30) ''us-east-1'' False
             = Inr scost
         \<and> tier1_cost scost = 200
         \<and> total_monthly_cost scost = 200
         \<and> calculate_new_cloudwatch_cost split_file (120 / 30) ''us-east-1'' True
             = Inr icost
         \<and> tier1_cost icost = 15
         \<and> total_monthly_cost icost = 15
         \<and> total_new_cost a = 215)"
proof -
  have f: "split_file = Some split_data" by (simp add: split_file_def)
  have l: "get_region_pricing split_data ''us-east-1'' = Inr split_region"
    by (simp add: get_region_pricing_def split_data_def)
  have s: "sum_list (map (\<lambda>item. standard (snd item)) mixed_usage) = 400"
    and i: "sum_list (map (\<lambda>item. ia (snd item)) mixed_usage) = 120"
    by (simp_all add: mixed_usage_def)
  have rates: "logs split_region =
      \<lparr>standard_ingestion = 1/2, infrequent_ingestion = 1/4,
       vended_logs = \<lparr>to_cloudwatch_logs_standard = example_schedule,
                      to_cloudwatch_logs_infrequent = infrequent_schedule\<rparr>\<rparr>"
    by (simp add: split_region_def)
  from analyze_costs_totals [OF f l, of mixed_usage]
  obtain a ocost scost icost where
    a: "analyze_costs split_file mixed_usage ''us-east-1'' = Inr a"
      "total_standard_gb a = sum_list (map (\<lambda>item. standard (snd item)) mixed_usage)"
      "total_ia_gb a = sum_list (map (\<lambda>item. ia (snd item)) mixed_usage)"
    and o: "calculate_old_cloudwatch_cost split_file
         (total_standard_gb a) (total_ia_gb a) ''us-east-1'' = Inr ocost"
      "ocost = total_standard_gb a * standard_ingestion (logs split_region)
                   + total_ia_gb a * infrequent_ingestion (logs split_region)"
      "total_old_cost a = ocost"
    and sc: "calculate_new_cloudwatch_cost split_file
         (total_standard_gb a / 30) ''us-east-1'' False = Inr scost"
      "tier1_cost scost = tier1_usage (total_standard_gb a / 30 * 30)
             * first_10tb (to_cloudwatch_logs_standard (vended_logs (logs split_region)))"
      "tier2_cost scost = tier_cost (tier2_usage (total_standard_gb a / 30 * 30))
               (next_20tb (to_cloudwatch_logs_standard (vended_logs (logs split_region))))"
      "tier3_cost scost = tier_cost (tier3_usage (total_standard_gb a / 30 * 30))
               (next_20tb_plus (to_cloudwatch_logs_standard (vended_logs (logs split_region))))"
      "tier4_cost scost = tier_cost (tier4_usage (total_standard_gb a / 30 * 30))
               (over_50tb (to_cloudwatch_logs_standard (vended_logs (logs split_region))))"
      "total_monthly_cost scost
             = tier1_cost scost + tier2_cost scost + tier3_cost scost + tier4_cost scost"
    and ic: "calculate_new_cloudwatch_cost split_file
         (total_ia_gb a / 30) ''us-east-1'' True = Inr icost"
      "tier1_cost icost = tier1_usage (total_ia_gb a / 30 * 30)
             * first_10tb (to_cloudwatch_logs_infrequent (vended_logs (logs split_region)))"
      "tier2_cost icost = tier_cost (tier2_usage (total_ia_gb a / 30 * 30))
               (next_20tb (to_cloudwatch_logs_infrequent (vended_logs (logs split_region))))"
      "tier3_cost icost = tier_cost (tier3_usage (total_ia_gb a / 30 * 30))
               (next_20tb_plus (to_cloudwatch_logs_infrequent (vended_logs (logs split_region))))"
      "tier4_cost icost = tier_cost (tier4_usage (total_ia_gb a / 30 * 30))
               (over_50tb (to_cloudwatch_logs_infrequent (vended_logs (logs split_region))))"
      "total_monthly_cost icost
             = tier1_cost icost + tier2_cost icost + tier3_cost icost + tier4_cost icost"
    and n: "total_new_cost a = total_monthly_cost scost + total_monthly_cost icost"
    by blast
  have ts: "total_standard_gb a = 400" and ti: "total_ia_gb a = 120"
    using a(2,3) s i by simp_all
  have ev: "tier1_usage 400 = 400" "tier2_usage 400 = None" "tier3_usage 400 = None"
    "tier4_usage 400 = None" "tier1_usage 120 = 120" "tier2_usage 120 = None"
    "tier3_usage 120 = None" "tier4_usage 120 = None"
    by (simp_all add: tier1_usage_def tier2_usage_def tier3_usage_def tier4_usage_def
        thresholds)
  have s1: "tier1_cost scost = 200" and s2: "tier2_cost scost = 0"
    and s3: "tier3_cost scost = 0" and s4: "tier4_cost scost = 0"
    using sc(2-5)
    by (simp_all add: ts rates ev tier_cost_def example_schedule_def)
  have i1: "tier1_cost icost = 15" and i2: "tier2_cost icost = 0"
    and i3: "tier3_cost icost = 0" and i4: "tier4_cost icost = 0"
    using ic(2-5)
    by (simp_all add: ti rates ev tier_cost_def infrequent_schedule_def)
  have st: "total_monthly_cost scost = 200" using sc(6) by (simp add: s1 s2 s3 s4)
  have it: "total_monthly_cost icost = 15" using ic(6) by (simp add: i1 i2 i3 i4)
  have ov: "ocost = 230" using o(2) by (simp add: ts ti rates)
  have "\<exists>a ocost scost icost.
           analyze_costs split_file mixed_usage ''us-east-1'' = Inr a
         \<and> total_standard_gb a = 400 \<and> total_ia_gb a = 120
         \<and> calculate_old_cloudwatch_cost split_file 400 120 ''us-east-1'' = Inr ocost
         \<and> ocost = 230
         \<and> total_old_cost a = 230
         \<and> calculate_new_cloudwatch_cost split_file (400 / 30) ''us-east-1'' False
             = Inr scost
         \<and> tier1_cost scost = 200
         \<and> total_monthly_cost scost = 200
         \<and> calculate_new_cloudwatch_cost split_file (120 / 30) ''us-east-1'' True
             = Inr icost
         \<and> tier1_cost icost = 15
         \<and> total_monthly_cost icost = 15
         \<and> total_new_cost a = 215"
    apply (rule exI [of _ a])
    apply (rule exI [of _ ocost])
    apply (rule exI [of _ scost])
    apply (rule exI [of _ icost])
    using a(1) o(1,3) sc(1) ic(1) n
    apply (simp add: ts ti s1 i1 st it ov)
    done
  with f l show ?thesis by (intro conjI)
qed

text \<open>
  C8. For a usage dictionary (each date once), when the pricing lookup succeeds,
  \<open>analyze_costs\<close> returns rows whose dates increase strictly, which are exactly the
  dates of the input, one row for each; the rows carry, in that order, the volumes of
  the input items sorted by date.
\<close>

theorem daily_rows_sorted_one_per_date:
  assumes "pricing_file = Some pd"
    and "get_region_pricing pd region = Inr rp"
    and "distinct (map fst usage)"
  shows "\<exists>a. analyze_costs pricing_file usage region = Inr a
           \<and> sorted_wrt (<) (map date (daily_comparisons a))
           \<and> set (map date (daily_comparisons a)) = set (map fst usage)
           \<and> length (daily_comparisons a) = length usage
           \<and> map date (daily_comparisons a) = sort (map fst usage)
           \<and> map standard_gb (daily_comparisons a)
               = map (\<lambda>item. standard (snd item)) (sort_key fst usage)
           \<and> map ia_gb (daily_comparisons a)
               = map (\<lambda>item. ia (snd item)) (sort_key fst usage)"
proof -
  from daily_loop_Inr [OF assms(1,2), of "sorted_items usage" "[]"] obtain rows where
    rows: "daily_loop pricing_file region (sorted_items usage) [] = Inr rows"
      "map date rows = map fst (sorted_items usage)"
      "map standard_gb rows = map (\<lambda>item. standard (snd item)) (sorted_items usage)"
      "map ia_gb rows = map (\<lambda>item. ia (snd item)) (sorted_items usage)"
    by auto
  from analyze_costs_Inr [OF assms(1,2), of usage] rows(1) obtain a where
    a: "analyze_costs pricing_file usage region = Inr a" "daily_comparisons a = rows"
    by auto
  have keys: "map fst (sorted_items usage) = sort (map fst usage)"
    unfolding sorted_items_def by (rule map_sort_key)
  have srt: "sorted_wrt (<) (sort (map fst usage))"
    by (simp add: strict_sorted_iff assms(3))
  have len: "length rows = length usage"
    using arg_cong [OF rows(2), of length] by (simp add: sorted_items_def)
  have dates: "map date rows = sort (map fst usage)"
    using rows(2) keys by simp
  then have "set (map date rows) = set (sort (map fst usage))"
    by (rule arg_cong)
  then have st: "date ` set rows = fst ` set usage"
    by simp
  show ?thesis
    using a rows(3,4) dates st srt len by (simp add: sorted_items_def)
qed

theorem daily_rows_sorted_one_per_date_witness:
  "example_file = Some example_data
   \<and> get_region_pricing example_data ''us-east-1'' = Inr example_region
   \<and> distinct (map fst example_usage)
   \<and> map fst example_usage = [''2025-04-02'', ''2025-04-01'']
   \<and> (\<exists>a. analyze_costs example_file example_usage ''us-east-1'' = Inr a
         \<and> map date (daily_comparisons a) = [''2025-04-01'', ''2025-04-02'']
         \<and> map standard_gb (daily_comparisons a) = [400, 0])"
proof -
  have f: "example_file = Some example_data" by (simp add: example_file_def)
  have k: "map fst example_usage = [''2025-04-02'', ''2025-04-01'']"
    by (simp add: example_usage_def)
  have d: "distinct (map fst example_usage)" by (simp add: k)
  have o: "\<not> ''2025-04-02'' \<le> ''2025-04-01''"
    by (simp add: less_eq_char_def)
  from daily_rows_sorted_one_per_date [OF f example_lookup d] obtain a where
    a: "analyze_costs example_file example_usage ''us-east-1'' = Inr a"
      "map date (daily_comparisons a) = sort (map fst example_usage)"
      "map standard_gb (daily_comparisons a)
         = map (\<lambda>item. standard (snd item)) (sort_key fst example_usage)"
    by blast
  from a(2) o have "map date (daily_comparisons a) = [''2025-04-01'', ''2025-04-02'']"
    by (simp add: k)
  moreover from a(3) o have "map standard_gb (daily_comparisons a) = [400, 0]"
    by (simp add: example_usage_def)
  ultimately have "\<exists>a. analyze_costs example_file example_usage ''us-east-1'' = Inr a
         \<and> map date (daily_comparisons a) = [''2025-04-01'', ''2025-04-02'']
         \<and> map standard_gb (daily_comparisons a) = [400, 0]"
    using a(1) by (intro exI [of _ a]) simp
  with f example_lookup d k show ?thesis by (intro conjI)
qed

text \<open>
  C9. There is a usage for which the daily rows' \<open>new_cost\<close> do not add up to
  \<open>total_new_cost\<close>. With rates falling strictly from band to band, take two days, one
  with 400 GB of standard logs and one with none: the day of 400 GB is priced as a
  month of 12000 GB, which reaches band 2, and contributes \<open>5500 / 30\<close>; the month total
  of 400 GB stays in band 1 and costs 200.
\<close>

theorem daily_new_costs_differ_from_total_new_cost:
  "\<exists>usage a.
      distinct (map fst usage)
    \<and> next_20tb example_schedule < first_10tb example_schedule
    \<and> next_20tb_plus example_schedule < next_20tb example_schedule
    \<and> over_50tb example_schedule < next_20tb_plus example_schedule
    \<and> analyze_costs example_file usage ''us-east-1'' = Inr a
    \<and> total_new_cost a = 200
    \<and> sum_list (map new_cost (daily_comparisons a)) = 550 / 3
    \<and> sum_list (map new_cost (daily_comparisons a)) \<noteq> total_new_cost a"
proof -
  have o: "\<not> ''2025-04-02'' \<le> ''2025-04-01''"
    by (simp add: less_eq_char_def)
  have f: "example_file = Some example_data" by (simp add: example_file_def)
  have day1: "daily_row example_file ''us-east-1'' (''2025-04-01'', \<lparr>standard = 400, ia = 0\<rparr>)
      = Inr \<lparr>date = ''2025-04-01'', old_cost = 200, new_cost = 550 / 3,
             standard_gb = 400, ia_gb = 0, total_gb = 400, difference = - (50 / 3)\<rparr>"
    unfolding daily_row_def Let_def
      calculate_old_Inr [OF f example_lookup] calculate_new_Inr [OF f example_lookup]
    by (simp add: vended_logs_pricing_of_def example_schedule_def example_region_def tier1_usage_def
        tier2_usage_def tier3_usage_def tier4_usage_def tier_cost_def thresholds)
  have day2: "daily_row example_file ''us-east-1'' (''2025-04-02'', \<lparr>standard = 0, ia = 0\<rparr>)
      = Inr \<lparr>date = ''2025-04-02'', old_cost = 0, new_cost = 0,
             standard_gb = 0, ia_gb = 0, total_gb = 0, difference = 0\<rparr>"
    unfolding daily_row_def Let_def
      calculate_old_Inr [OF f example_lookup] calculate_new_Inr [OF f example_lookup]
    by (simp add: vended_logs_pricing_of_def example_schedule_def example_region_def tier1_usage_def
        tier2_usage_def tier3_usage_def tier4_usage_def tier_cost_def thresholds)
  have srt: "sorted_items example_usage =
      [(''2025-04-01'', \<lparr>standard = 400, ia = 0\<rparr>),
       (''2025-04-02'', \<lparr>standard = 0, ia = 0\<rparr>)]"
    using o by (simp add: sorted_items_def example_usage_def)
  have rows: "daily_loop example_file ''us-east-1'' (sorted_items example_usage) [] =
      Inr [\<lparr>date = ''2025-04-01'', old_cost = 200, new_cost = 550 / 3,
             standard_gb = 400, ia_gb = 0, total_gb = 400, difference = - (50 / 3)\<rparr>,
           \<lparr>date = ''2025-04-02'', old_cost = 0, new_cost = 0,
             standard_gb = 0, ia_gb = 0, total_gb = 0, difference = 0\<rparr>]"
    by (simp add: srt day1 day2)
  have "analyze_costs example_file example_usage ''us-east-1'' =
      Inr \<lparr>total_old_cost = 200, total_new_cost = 200, total_standard_gb = 400,
           total_ia_gb = 0, total_gb_all = 400,
           daily_comparisons =
             [\<lparr>date = ''2025-04-01'', old_cost = 200, new_cost = 550 / 3,
               standard_gb = 400, ia_gb = 0, total_gb = 400, difference = - (50 / 3)\<rparr>,
              \<lparr>date = ''2025-04-02'', old_cost = 0, new_cost = 0,
               standard_gb = 0, ia_gb = 0, total_gb = 0, difference = 0\<rparr>],
           region_of = ''us-east-1''\<rparr>"
    unfolding analyze_costs_def Let_def rows
      calculate_old_Inr [OF f example_lookup] calculate_new_Inr [OF f example_lookup]
    by (simp add: example_usage_def vended_logs_pricing_of_def example_schedule_def example_region_def
        tier1_usage_def tier2_usage_def tier3_usage_def tier4_usage_def tier_cost_def
        thresholds)
  then have "\<exists>a. analyze_costs example_file example_usage ''us-east-1'' = Inr a
      \<and> total_new_cost a = 200
      \<and> sum_list (map new_cost (daily_comparisons a)) = 550 / 3
      \<and> sum_list (map new_cost (daily_comparisons a)) \<noteq> total_new_cost a"
    by simp
  moreover have "distinct (map fst example_usage)"
    by (simp add: example_usage_def)
  moreover have "next_20tb example_schedule < first_10tb example_schedule"
    "next_20tb_plus example_schedule < next_20tb example_schedule"
    "over_50tb example_schedule < next_20tb_plus example_schedule"
    by (simp_all add: example_schedule_def)
  ultimately show ?thesis by blast
qed

section \<open>The tiered calculator on doubles\<close>

subsection \<open>Rounding\<close>

lemma rhe_of_int: "rhe (of_int n) = n"
  by (simp add: rhe_def)

lemma rhe_lower: "\<lfloor>q\<rfloor> \<le> rhe q"
  by (simp add: rhe_def Let_def)

lemma rhe_upper: "rhe q \<le> \<lfloor>q\<rfloor> + 1"
  by (simp add: rhe_def Let_def)

lemma rhe_mono:
  assumes "q \<le> q'"
  shows "rhe q \<le> rhe q'"
proof (cases "\<lfloor>q\<rfloor> = \<lfloor>q'\<rfloor>")
  case True
  with assms show ?thesis by (simp add: rhe_def Let_def)
next
  case False
  with assms have "\<lfloor>q\<rfloor> < \<lfloor>q'\<rfloor>"
    using floor_mono [OF assms] by simp
  then have "rhe q \<le> \<lfloor>q'\<rfloor>"
    using rhe_upper [of q] by simp
  with rhe_lower [of q'] show ?thesis by simp
qed

lemma rhe_le_int: "q \<le> of_int n \<Longrightarrow> rhe q \<le> n"
  using rhe_mono [of q "of_int n"] by (simp add: rhe_of_int)

lemma rhe_ge_int: "of_int n \<le> q \<Longrightarrow> n \<le> rhe q"
  using rhe_mono [of "of_int n" q] by (simp add: rhe_of_int)

lemma rhe_minus: "rhe (- q) = - rhe q"
proof (cases "q = of_int \<lfloor>q\<rfloor>")
  case True
  then obtain n where "q = of_int n" ..
  then have "- q = of_int (- n)" by simp
  then show ?thesis using \<open>q = of_int n\<close> by (simp only: rhe_of_int)
next
  case False
  then have fl: "\<lfloor>- q\<rfloor> = - \<lfloor>q\<rfloor> - 1"
    by (simp add: floor_minus ceiling_altdef)
  define f where "f = \<lfloor>q\<rfloor>"
  define r where "r = q - of_int f"
  have q: "q = of_int f + r" by (simp add: r_def)
  have r: "0 < r" "r < 1"
    using False floor_correct [of q] by (auto simp add: r_def f_def less_le)
  have "rhe q = (if r < 1 / 2 then f else if 1 / 2 < r then f + 1
                 else if even f then f else f + 1)"
    unfolding rhe_def Let_def r_def f_def by simp
  moreover have "rhe (- q) = (if 1 - r < 1 / 2 then - f - 1 else if 1 / 2 < 1 - r then - f
                 else if even (- f - 1) then - f - 1 else - f)"
  proof -
    have "- q - of_int (- \<lfloor>q\<rfloor> - 1) = 1 - (q - of_int \<lfloor>q\<rfloor>)" by simp
    then show ?thesis
      unfolding rhe_def Let_def fl r_def f_def by (simp only: diff_add_cancel)
  qed
  ultimately show ?thesis using r by auto
qed

lemma powi_nonneg: "0 \<le> e \<Longrightarrow> (2::rat) powi e = 2 ^ nat e"
  by (simp add: power_int_def)

lemma powi_nonpos: "e \<le> 0 \<Longrightarrow> (2::rat) powi e = 1 / 2 ^ nat (- e)"
  by (cases "e = 0") (simp_all add: power_int_def field_simps)

lemma powi_less_cancel:
  assumes "(2::rat) powi a < 2 powi b"
  shows "a < b"
proof (rule ccontr)
  assume "\<not> a < b"
  then have "b \<le> a" by simp
  then have "(2::rat) powi b \<le> 2 powi a" by (rule power_int_increasing) simp
  with assms show False by simp
qed

lemma ilog2_bounds:
  assumes "0 < x"
  shows "2 powi ilog2 x \<le> x" and "x < 2 powi (ilog2 x + 1)"
proof -
  have "2 powi ilog2 x \<le> x \<and> x < 2 powi (ilog2 x + 1)"
  proof (cases "1 \<le> x")
    case True
    define n where "n = \<lfloor>x\<rfloor>"
    define b where "b = bitlen n"
    from True have pos: "0 < n" by (simp add: n_def)
    from bitlen_bounds [OF pos] have lo: "2 ^ nat (b - 1) \<le> n" and hi: "n < 2 ^ nat b"
      by (simp_all add: b_def)
    from pos have b1: "1 \<le> b"
      using bitlen_eq_zero_iff [of n] bitlen_nonneg [of n] by (simp add: b_def)
    have e: "ilog2 x = b - 1" using True by (simp add: ilog2_def n_def b_def)
    from lo have "(of_int (2 ^ nat (b - 1)) :: rat) \<le> of_int n"
      by (simp only: of_int_le_iff)
    also have "\<dots> \<le> x" by (simp add: n_def)
    finally have l: "2 powi (b - 1) \<le> x" using b1 by (simp add: powi_nonneg)
    from hi have "n + 1 \<le> 2 ^ nat b" by simp
    then have "(of_int (n + 1) :: rat) \<le> of_int (2 ^ nat b)"
      by (simp only: of_int_le_iff)
    moreover have "x < of_int (n + 1)" using floor_correct [of x] by (simp add: n_def)
    ultimately have u: "x < 2 powi b" using b1 by (simp add: powi_nonneg)
    from l u show ?thesis by (simp add: e)
  next
    case False
    define y where "y = 1 / x"
    define k where "k = \<lceil>y\<rceil> - 1"
    define b where "b = bitlen k"
    from False assms have y1: "1 < y" by (simp add: y_def)
    then have "1 < \<lceil>y\<rceil>" by (simp add: less_ceiling_iff)
    then have pos: "0 < k" by (simp add: k_def)
    from bitlen_bounds [OF pos] have lo: "2 ^ nat (b - 1) \<le> k" and hi: "k < 2 ^ nat b"
      by (simp_all add: b_def)
    from pos have b1: "1 \<le> b"
      using bitlen_eq_zero_iff [of k] bitlen_nonneg [of k] by (simp add: b_def)
    have e: "ilog2 x = - b" using False by (simp add: ilog2_def k_def b_def y_def)
    have x: "x = 1 / y" by (simp add: y_def)
    have ypos: "0 < y" using y1 by simp
    from hi have "k + 1 \<le> 2 ^ nat b" by simp
    then have "(of_int (k + 1) :: rat) \<le> of_int (2 ^ nat b)"
      by (simp only: of_int_le_iff)
    moreover have "y \<le> of_int (k + 1)" by (simp add: k_def)
    ultimately have "y \<le> 2 ^ nat b" by simp
    then have l: "2 powi (- b) \<le> x"
      using b1 ypos by (simp add: powi_nonpos x field_simps)
    from lo have "(of_int (2 ^ nat (b - 1)) :: rat) \<le> of_int k"
      by (simp only: of_int_le_iff)
    then have "(2::rat) ^ nat (b - 1) \<le> of_int k" by simp
    moreover have "of_int k < y" by (simp add: k_def) linarith
    ultimately have "2 ^ nat (b - 1) < y" by (rule le_less_trans)
    then have u: "x < 2 powi (- b + 1)"
      using b1 ypos by (simp add: powi_nonpos x field_simps)
    from l u show ?thesis by (simp add: e)
  qed
  then show "2 powi ilog2 x \<le> x" and "x < 2 powi (ilog2 x + 1)" by simp_all
qed

lemma ilog2_unique:
  assumes "2 powi e \<le> x" and "x < 2 powi (e + 1)"
  shows "ilog2 x = e"
proof -
  have "0 < (2::rat) powi e" by simp
  with assms(1) have pos: "0 < x" by linarith
  note b = ilog2_bounds [OF pos]
  have "(2::rat) powi e < 2 powi (ilog2 x + 1)" using assms(1) b(2) by simp
  then have 1: "e < ilog2 x + 1" by (rule powi_less_cancel)
  have "(2::rat) powi ilog2 x < 2 powi (e + 1)" using assms(2) b(1) by simp
  then have 2: "ilog2 x < e + 1" by (rule powi_less_cancel)
  from 1 2 show ?thesis by simp
qed

lemma ilog2_mono:
  assumes "0 < x" and "x \<le> y"
  shows "ilog2 x \<le> ilog2 y"
proof -
  have "(2::rat) powi ilog2 x < 2 powi (ilog2 y + 1)"
    using ilog2_bounds(1) [OF assms(1)] ilog2_bounds(2) [of y] assms by simp
  then have "ilog2 x < ilog2 y + 1" by (rule powi_less_cancel)
  then show ?thesis by simp
qed


lemma powi_add: "(2::rat) powi (a + b) = 2 powi a * 2 powi b"
  by (simp add: power_int_add)

lemma powi_diff: "(2::rat) powi (a - b) = 2 powi a / 2 powi b"
  by (simp add: power_int_diff)

lemma powi_pos: "0 < (2::rat) powi a"
  by simp

lemma powi_mono: "a \<le> b \<Longrightarrow> (2::rat) powi a \<le> 2 powi b"
  by (rule power_int_increasing) simp_all

lemma powi_split53: "(2::rat) powi (e + 1) = 2 ^ 53 * 2 powi (e - 52)"
proof -
  have "(2::rat) powi (53 + (e - 52)) = 2 powi 53 * 2 powi (e - 52)" by (rule powi_add)
  then show ?thesis by (simp add: add.commute)
qed

lemma powi_split52: "(2::rat) powi e = 2 ^ 52 * 2 powi (e - 52)"
proof -
  have "(2::rat) powi (52 + (e - 52)) = 2 powi 52 * 2 powi (e - 52)" by (rule powi_add)
  then show ?thesis by simp
qed

lemma ulp_exp_pos: "0 < x \<Longrightarrow> ulp_exp x = max (ilog2 x) (- 1022) - 52"
  by (simp add: ulp_exp_def)

lemma ulp_exp_minus: "ulp_exp (- x) = ulp_exp x"
  by (simp add: ulp_exp_def)

lemma rne_minus: "rne (- x) = - rne x"
  by (simp add: rne_def ulp_exp_minus rhe_minus)

lemma rne_zero: "rne 0 = 0"
  by (simp add: rne_def)

lemma rne_pos_eq:
  "0 < x \<Longrightarrow> rne x = of_int (rhe (x / 2 powi ulp_exp x)) * 2 powi ulp_exp x"
  by (simp add: rne_def)

lemma scaled_upper:
  assumes "0 < x"
  shows "x / 2 powi ulp_exp x \<le> of_int (2 ^ 53)"
proof -
  define e where "e = max (ilog2 x) (- 1022)"
  have "x < 2 powi (ilog2 x + 1)" by (rule ilog2_bounds(2) [OF assms])
  also have "\<dots> \<le> 2 powi (e + 1)" by (rule powi_mono) (simp add: e_def)
  also have "\<dots> = 2 ^ 53 * 2 powi (e - 52)"
    by (rule powi_split53)
  finally have "x < 2 ^ 53 * 2 powi (e - 52)" .
  then have "x / 2 powi (e - 52) < 2 ^ 53"
    by (simp add: pos_divide_less_eq)
  then show ?thesis
    by (simp add: ulp_exp_pos [OF assms] e_def)
qed

lemma scaled_lower:
  assumes "0 < x" and "- 1022 \<le> ilog2 x"
  shows "of_int (2 ^ 52) \<le> x / 2 powi ulp_exp x"
proof -
  have e: "ulp_exp x = ilog2 x - 52"
    using assms by (simp add: ulp_exp_pos)
  have "2 ^ 52 * 2 powi (ilog2 x - 52) = (2::rat) powi ilog2 x"
    by (rule powi_split52 [symmetric])
  also have "\<dots> \<le> x" by (rule ilog2_bounds(1) [OF assms(1)])
  finally have "2 ^ 52 \<le> x / 2 powi (ilog2 x - 52)"
    by (simp add: pos_le_divide_eq)
  then show ?thesis by (simp add: e)
qed

lemma rne_upper:
  assumes "0 < x"
  shows "rne x \<le> 2 powi (max (ilog2 x) (- 1022) + 1)"
proof -
  define e where "e = max (ilog2 x) (- 1022)"
  have "rhe (x / 2 powi ulp_exp x) \<le> 2 ^ 53"
    by (rule rhe_le_int) (rule scaled_upper [OF assms])
  then have "(of_int (rhe (x / 2 powi ulp_exp x)) :: rat) \<le> of_int (2 ^ 53)"
    by (simp only: of_int_le_iff)
  then have "rne x \<le> of_int (2 ^ 53) * 2 powi ulp_exp x"
    unfolding rne_pos_eq [OF assms] by (rule mult_right_mono) simp
  also have "\<dots> = 2 ^ 53 * 2 powi (e - 52)"
    by (simp add: ulp_exp_pos [OF assms] e_def)
  also have "\<dots> = 2 powi (e + 1)"
    by (rule powi_split53 [symmetric])
  finally show ?thesis by (simp add: e_def)
qed

lemma rne_lower:
  assumes "0 < x" and "- 1022 \<le> ilog2 x"
  shows "2 powi ilog2 x \<le> rne x"
proof -
  have e: "ulp_exp x = ilog2 x - 52"
    using assms by (simp add: ulp_exp_pos)
  have "2 ^ 52 \<le> rhe (x / 2 powi ulp_exp x)"
    by (rule rhe_ge_int) (rule scaled_lower [OF assms])
  then have "(of_int (2 ^ 52) :: rat) \<le> of_int (rhe (x / 2 powi ulp_exp x))"
    by (simp only: of_int_le_iff)
  then have "of_int (2 ^ 52) * 2 powi ulp_exp x \<le> rne x"
    unfolding rne_pos_eq [OF assms(1)] by (rule mult_right_mono) simp
  moreover have "of_int (2 ^ 52) * 2 powi ulp_exp x = (2::rat) ^ 52 * 2 powi (ilog2 x - 52)"
    by (simp add: e)
  moreover have "\<dots> = 2 powi ilog2 x"
    by (rule powi_split52 [symmetric])
  ultimately show ?thesis by simp
qed

lemma rne_nonneg:
  assumes "0 \<le> x"
  shows "0 \<le> rne x"
proof (cases "x = 0")
  case True
  then show ?thesis by (simp add: rne_zero)
next
  case False
  with assms have pos: "0 < x" by simp
  have "(of_int 0 :: rat) \<le> x / 2 powi ulp_exp x" using pos by simp
  then have "0 \<le> rhe (x / 2 powi ulp_exp x)" by (rule rhe_ge_int)
  then show ?thesis unfolding rne_pos_eq [OF pos] by simp
qed

lemma rne_mono_pos:
  assumes "0 < x" and "x \<le> y"
  shows "rne x \<le> rne y"
proof -
  from assms have ypos: "0 < y" by simp
  define ex where "ex = max (ilog2 x) (- 1022)"
  define ey where "ey = max (ilog2 y) (- 1022)"
  have le: "ex \<le> ey"
    using ilog2_mono [OF assms] by (simp add: ex_def ey_def)
  show ?thesis
  proof (cases "ex = ey")
    case True
    then have s: "ulp_exp y = ulp_exp x"
      by (simp add: ulp_exp_pos assms(1) ypos ex_def ey_def)
    have "x / 2 powi ulp_exp x \<le> y / 2 powi ulp_exp x"
      using assms(2) by (simp add: divide_right_mono)
    then have "rhe (x / 2 powi ulp_exp x) \<le> rhe (y / 2 powi ulp_exp x)"
      by (rule rhe_mono)
    then have "(of_int (rhe (x / 2 powi ulp_exp x)) :: rat)
                 \<le> of_int (rhe (y / 2 powi ulp_exp x))"
      by (simp only: of_int_le_iff)
    then show ?thesis
      unfolding rne_pos_eq [OF assms(1)] rne_pos_eq [OF ypos] s
      by (rule mult_right_mono) simp
  next
    case False
    with le have lt: "ex < ey" by simp
    then have ey: "ey = ilog2 y" and big: "- 1022 \<le> ilog2 y"
      by (simp_all add: ex_def ey_def max_def split: if_splits)
    have "rne x \<le> 2 powi (ex + 1)"
      using rne_upper [OF assms(1)] by (simp add: ex_def)
    also have "\<dots> \<le> 2 powi ey" by (rule powi_mono) (use lt in simp)
    also have "\<dots> \<le> rne y"
      using rne_lower [OF ypos big] by (simp add: ey)
    finally show ?thesis .
  qed
qed

lemma rne_mono:
  assumes "x \<le> y"
  shows "rne x \<le> rne y"
proof -
  consider "0 < x" | "x \<le> 0" "0 \<le> y" | "y < 0" by linarith
  then show ?thesis
  proof cases
    case 1
    then show ?thesis using assms by (rule rne_mono_pos)
  next
    case 2
    have "0 \<le> rne (- x)" using 2(1) by (intro rne_nonneg) simp
    then have "rne x \<le> 0" by (simp add: rne_minus)
    also have "0 \<le> rne y" using 2(2) by (rule rne_nonneg)
    finally show ?thesis .
  next
    case 3
    have "rne (- y) \<le> rne (- x)"
      using 3 assms by (intro rne_mono_pos) simp_all
    then show ?thesis by (simp add: rne_minus)
  qed
qed


lemma powi_shift53: "(2::rat) powi (j + 53) = 2 ^ 53 * 2 powi j"
proof -
  have "(2::rat) powi (j + 53) = 2 powi j * 2 powi 53" by (rule powi_add)
  then show ?thesis by (simp add: mult.commute)
qed

lemma powi_shift1: "(2::rat) powi (j + 1) = 2 * 2 powi j"
proof -
  have "(2::rat) powi (j + 1) = 2 powi j * 2 powi 1" by (rule powi_add)
  then show ?thesis by (simp add: mult.commute)
qed

lemma ulp_exp_ge: "- 1074 \<le> ulp_exp x"
  by (simp add: ulp_exp_def)

lemma rne_exact_pos:
  assumes x: "x = of_int K * 2 powi j"
    and K: "0 < K" "K < 2 ^ 53"
    and j: "- 1074 \<le> j"
  shows "rne x = x"
proof -
  have pos: "0 < x" using K(1) by (simp add: x)
  define e where "e = ulp_exp x"
  have "(of_int K :: rat) < of_int (2 ^ 53)" using K(2) by (simp only: of_int_less_iff)
  then have "x < 2 ^ 53 * 2 powi j" by (simp add: x)
  also have "\<dots> = 2 powi (j + 53)"
    by (rule powi_shift53 [symmetric])
  finally have "2 powi ilog2 x < (2::rat) powi (j + 53)"
    using ilog2_bounds(1) [OF pos] by simp
  then have "ilog2 x < j + 53" by (rule powi_less_cancel)
  with j have le: "e \<le> j" by (simp add: e_def ulp_exp_pos [OF pos])
  have "2 powi j = (2::rat) powi (j - e) * 2 powi e"
    by (simp add: powi_add [symmetric])
  also have "(2::rat) powi (j - e) = 2 ^ nat (j - e)"
    using le by (simp add: powi_nonneg)
  finally have split: "2 powi j = (2::rat) ^ nat (j - e) * 2 powi e" .
  have "x / 2 powi e = of_int K * 2 ^ nat (j - e)"
    by (simp add: x split)
  also have "\<dots> = of_int (K * 2 ^ nat (j - e))" by simp
  finally have "rhe (x / 2 powi e) = K * 2 ^ nat (j - e)"
    by (simp only: rhe_of_int)
  then have "rne x = of_int (K * 2 ^ nat (j - e)) * 2 powi e"
    by (simp add: rne_pos_eq [OF pos] e_def)
  also have "\<dots> = x" by (simp add: x split)
  finally show ?thesis .
qed

lemma rne_exact:
  assumes x: "x = of_int K * 2 powi j"
    and K: "\<bar>K\<bar> < 2 ^ 53"
    and j: "- 1074 \<le> j"
  shows "rne x = x"
proof -
  consider "K = 0" | "0 < K" | "K < 0" by linarith
  then show ?thesis
  proof cases
    case 1
    then show ?thesis by (simp add: x rne_zero)
  next
    case 2
    then show ?thesis using x K j by (intro rne_exact_pos [of x K j]) simp_all
  next
    case 3
    have "rne (- x) = - x"
      using 3 K j by (intro rne_exact_pos [of "- x" "- K" j]) (simp_all add: x)
    then show ?thesis by (simp add: rne_minus)
  qed
qed

lemma rne_form_pos:
  assumes "0 < x"
  shows "\<exists>N. rne x = of_int N * 2 powi ulp_exp x \<and> 0 \<le> N \<and> N \<le> 2 ^ 53"
proof -
  have "rhe (x / 2 powi ulp_exp x) \<le> 2 ^ 53"
    by (rule rhe_le_int) (rule scaled_upper [OF assms])
  moreover have "(of_int 0 :: rat) \<le> x / 2 powi ulp_exp x" using assms by simp
  then have "0 \<le> rhe (x / 2 powi ulp_exp x)" by (rule rhe_ge_int)
  ultimately show ?thesis using rne_pos_eq [OF assms] by blast
qed

lemma rne_idem_pos:
  assumes "0 < x"
  shows "rne (rne x) = rne x"
proof -
  from rne_form_pos [OF assms] obtain N where
    N: "rne x = of_int N * 2 powi ulp_exp x" "0 \<le> N" "N \<le> 2 ^ 53"
    by blast
  show ?thesis
  proof (cases "N = 2 ^ 53")
    case True
    have "rne x = of_int (2 ^ 52) * 2 powi (ulp_exp x + 1)"
      by (simp add: N(1) True powi_shift1)
    then show ?thesis
      using ulp_exp_ge [of x] by (intro rne_exact [of _ "2 ^ 52" "ulp_exp x + 1"]) simp_all
  next
    case False
    with N(2,3) have "\<bar>N\<bar> < 2 ^ 53" by simp
    with N(1) show ?thesis
      using ulp_exp_ge [of x] by (intro rne_exact [of _ N "ulp_exp x"]) simp_all
  qed
qed

lemma rne_idem: "rne (rne x) = rne x"
proof -
  consider "x = 0" | "0 < x" | "x < 0" by linarith
  then show ?thesis
  proof cases
    case 1
    then show ?thesis by (simp add: rne_zero)
  next
    case 2
    then show ?thesis by (rule rne_idem_pos)
  next
    case 3
    then have "rne (rne (- x)) = rne (- x)" by (intro rne_idem_pos) simp
    then show ?thesis by (simp add: rne_minus)
  qed
qed

lemma sub_exact:
  assumes y: "rne y = y"
    and c: "c = of_int C * 2 powi ulp_exp y"
    and r: "0 < c" "c < y"
  shows "rne (y - c) = y - c"
proof -
  from r have pos: "0 < y" by simp
  from rne_form_pos [OF pos] y obtain N where
    N: "y = of_int N * 2 powi ulp_exp y" "0 \<le> N" "N \<le> 2 ^ 53"
    by auto
  have d: "y - c = of_int (N - C) * 2 powi ulp_exp y"
    using N(1) c by (simp add: algebra_simps)
  have "0 < of_int C * (2::rat) powi ulp_exp y" using r(1) c by simp
  then have "0 < (of_int C :: rat)" by (rule zero_less_mult_pos2) (rule powi_pos)
  then have "0 < C" by simp
  moreover have "of_int C * (2::rat) powi ulp_exp y < of_int N * 2 powi ulp_exp y"
    using r(2) N(1) c by simp
  then have "(of_int C :: rat) < of_int N" by simp
  then have "C < N" by (simp only: of_int_less_iff)
  ultimately have "\<bar>N - C\<bar> < 2 ^ 53" using N(3) by simp
  then show ?thesis
    using d ulp_exp_ge [of y] by (intro rne_exact [of _ "N - C" "ulp_exp y"]) simp_all
qed

lemma sub_exact16:
  assumes y: "rne y = y"
    and c: "c = 16 * of_int c0"
    and r: "0 < c" "c < y" "y < 2 ^ 57"
  shows "rne (y - c) = y - c"
proof -
  from r have pos: "0 < y" by simp
  define e where "e = ulp_exp y"
  have "2 powi ilog2 y < (2::rat) powi 57"
    using ilog2_bounds(1) [OF pos] r(3) by simp
  then have "ilog2 y < 57" by (rule powi_less_cancel)
  then have le: "e \<le> 4" by (simp add: e_def ulp_exp_pos [OF pos])
  have "(2::rat) powi 4 = 2 powi (4 - e) * 2 powi e"
    by (simp add: powi_add [symmetric])
  also have "(2::rat) powi (4 - e) = 2 ^ nat (4 - e)"
    using le by (simp add: powi_nonneg)
  finally have "(16::rat) = 2 ^ nat (4 - e) * 2 powi e" by simp
  then have "c = of_int (c0 * 2 ^ nat (4 - e)) * 2 powi e"
    by (simp add: c)
  then show ?thesis
    unfolding e_def using y r(1,2) by (intro sub_exact [of y c "c0 * 2 ^ nat (4 - ulp_exp y)"])
qed


subsection \<open>Results of operations\<close>

lemma fl_Finite:
  assumes "fl x = Finite r"
  shows "r = rne x" and "- (2 powi 1024) < r" and "r < 2 powi 1024"
  using assms by (simp_all add: fl_def Let_def split: if_splits)

lemma fl_is_double: "fl x = Finite r \<Longrightarrow> is_double r"
  using fl_Finite [of x r] by (simp add: is_double_def rne_idem)

lemma fl_of_double: "is_double x \<Longrightarrow> fl x = Finite x"
  by (simp add: is_double_def fl_def Let_def)

lemma fmul_Finite: "fmul a b = Finite y \<Longrightarrow> is_double y"
  by (cases a; cases b) (auto split: if_splits dest: fl_is_double)

lemma fl_below:
  assumes "is_double y" and "0 \<le> x" and "x \<le> y"
  shows "fl x = Finite (rne x)" and "0 \<le> rne x" and "rne x \<le> y"
proof -
  show lo: "0 \<le> rne x" using assms(2) by (rule rne_nonneg)
  have "rne x \<le> rne y" using assms(3) by (rule rne_mono)
  then show hi: "rne x \<le> y" using assms(1) by (simp add: is_double_def)
  have "(0::rat) < 2 powi 1024" by (rule powi_pos)
  with lo hi assms(1) show "fl x = Finite (rne x)"
    by (simp add: fl_def Let_def is_double_def)
qed

lemma rne_of_int:
  assumes "\<bar>n\<bar> < 2 ^ 53"
  shows "rne (of_int n) = of_int n"
  using assms by (intro rne_exact [of _ n 0]) simp_all

lemma is_double_of_int:
  assumes "\<bar>n\<bar> < 2 ^ 53"
  shows "is_double (of_int n)"
proof -
  have "\<bar>of_int n :: rat\<bar> < of_int (2 ^ 53)"
    using assms by (simp only: of_int_abs [symmetric] of_int_less_iff)
  also have "(of_int (2 ^ 53) :: rat) \<le> 2 powi 1024" by simp
  finally show ?thesis using rne_of_int [OF assms] by (simp add: is_double_def abs_less_iff)
qed

lemma fmin_Finite: "fmin (Finite a) (Finite b) = Finite (min a b)"
  by (simp add: fmin_def flt_def min_def)

lemma fadd_zero_right:
  assumes "\<And>x. a = Finite x \<Longrightarrow> is_double x"
  shows "fadd a (Finite 0) = a"
  using assms by (cases a) (simp_all add: fl_of_double)

lemma fmul_fadd_zero: "fadd (fmul a b) (Finite 0) = fmul a b"
  by (rule fadd_zero_right) (rule fmul_Finite)

lemma fl_fadd_zero: "fadd (fl x) (Finite 0) = fl x"
  by (rule fadd_zero_right) (rule fl_is_double)

lemma fl_eval:
  assumes "rne q = v" and "- (2 powi 1024) < v" and "v < 2 powi 1024"
  shows "fl q = Finite v"
  using assms by (simp add: fl_def Let_def)

lemma fl_zero: "fl 0 = Finite 0"
  by (rule fl_eval) (simp_all add: rne_zero)

lemma fl_of_int:
  assumes "\<bar>n\<bar> < 2 ^ 53"
  shows "fl (of_int n) = Finite (of_int n)"
  using is_double_of_int [OF assms] by (rule fl_of_double)

text \<open>
  Subtracting a threshold \<open>c\<close> (a multiple of 16) from a larger double \<open>y\<close> and capping
  the difference at the width \<open>w\<close> of the band involves no rounding error: below the
  cap the difference is a double, and at or above it the cap is returned.
\<close>

lemma capped_difference:
  assumes y: "is_double y"
    and c: "c = 16 * of_int c0" "0 < c" "c < y"
    and w: "w = of_int w0" "\<bar>w0\<bar> < 2 ^ 53" "c + w < 2 ^ 57"
  shows "min (rne (y - c)) w = min (y - c) w"
proof (cases "y - c < w")
  case True
  then have "y < 2 ^ 57" using w(3) by simp
  with y c have "rne (y - c) = y - c"
    by (intro sub_exact16 [of y c c0]) (simp_all add: is_double_def)
  then show ?thesis by simp
next
  case False
  then have le: "w \<le> y - c" by simp
  then have "rne w \<le> rne (y - c)" by (rule rne_mono)
  moreover have "rne w = w" using rne_of_int [OF w(2)] by (simp add: w(1))
  ultimately show ?thesis using le by (simp add: min_def)
qed

subsection \<open>The usage variables at a finite monthly volume\<close>

lemma tier1_usage_f64_Finite: "tier1_usage_f64 (Finite y) = Finite (min y 10000)"
  by (simp add: tier1_usage_f64_def fmin_Finite thresholds)

lemma tier2_usage_f64_Finite:
  assumes "is_double y"
  shows "tier2_usage_f64 (Finite y)
           = (if 10000 < y then Some (Finite (min (y - 10000) 20000)) else None)"
proof (cases "10000 < y")
  case True
  then have "fl (y - 10000) = Finite (rne (y - 10000))"
    by (intro fl_below(1) [OF assms]) simp_all
  moreover have "min (rne (y - 10000)) 20000 = min (y - 10000) 20000"
    using True by (intro capped_difference [OF assms, of _ 625 _ 20000]) simp_all
  ultimately show ?thesis
    using True by (simp add: tier2_usage_f64_def fmin_Finite thresholds)
next
  case False
  then show ?thesis by (simp add: tier2_usage_f64_def thresholds)
qed

lemma tier3_usage_f64_Finite:
  assumes "is_double y"
  shows "tier3_usage_f64 (Finite y)
           = (if 30000 < y then Some (Finite (min (y - 30000) 20000)) else None)"
proof (cases "30000 < y")
  case True
  then have "fl (y - 30000) = Finite (rne (y - 30000))"
    by (intro fl_below(1) [OF assms]) simp_all
  moreover have "min (rne (y - 30000)) 20000 = min (y - 30000) 20000"
    using True by (intro capped_difference [OF assms, of _ 1875 _ 20000]) simp_all
  ultimately show ?thesis
    using True by (simp add: tier3_usage_f64_def fmin_Finite thresholds)
next
  case False
  then show ?thesis by (simp add: tier3_usage_f64_def thresholds)
qed

lemma tier4_usage_f64_Finite:
  assumes "is_double y"
  shows "tier4_usage_f64 (Finite y)
           = (if 50000 < y then Some (Finite (rne (y - 50000))) else None)"
proof (cases "50000 < y")
  case True
  then have "fl (y - 50000) = Finite (rne (y - 50000))"
    by (intro fl_below(1) [OF assms]) simp_all
  then show ?thesis
    using True by (simp add: tier4_usage_f64_def thresholds)
next
  case False
  then show ?thesis by (simp add: tier4_usage_f64_def thresholds)
qed

lemma tier4_difference_exact:
  assumes "is_double y" and "50000 < y" and "y < 2 ^ 57"
  shows "rne (y - 50000) = y - 50000"
  using assms by (intro sub_exact16 [of y 50000 3125]) (simp_all add: is_double_def)

lemma calculate_new_f64_Inr:
  assumes "pricing_file = Some pd" and "get_region_pricing pd region = Inr rp"
  shows "calculate_new_cloudwatch_cost_f64 pricing_file daily_gb region is_ia =
     Inr \<lparr>daily_gb_ingested_f64 = daily_gb,
          monthly_gb_ingested_f64 = fmul daily_gb (Finite 30),
          tier1_cost_f64 = fmul (tier1_usage_f64 (fmul daily_gb (Finite 30)))
                             (Finite (first_10tb (vended_logs_pricing_of rp is_ia))),
          tier2_cost_f64 = tier_cost_f64 (tier2_usage_f64 (fmul daily_gb (Finite 30)))
                             (next_20tb (vended_logs_pricing_of rp is_ia)),
          tier3_cost_f64 = tier_cost_f64 (tier3_usage_f64 (fmul daily_gb (Finite 30)))
                             (next_20tb_plus (vended_logs_pricing_of rp is_ia)),
          tier4_cost_f64 = tier_cost_f64 (tier4_usage_f64 (fmul daily_gb (Finite 30)))
                             (over_50tb (vended_logs_pricing_of rp is_ia)),
          total_monthly_cost_f64 =
            fadd (fadd (fadd
              (fmul (tier1_usage_f64 (fmul daily_gb (Finite 30)))
                 (Finite (first_10tb (vended_logs_pricing_of rp is_ia))))
              (tier_cost_f64 (tier2_usage_f64 (fmul daily_gb (Finite 30)))
                 (next_20tb (vended_logs_pricing_of rp is_ia))))
              (tier_cost_f64 (tier3_usage_f64 (fmul daily_gb (Finite 30)))
                 (next_20tb_plus (vended_logs_pricing_of rp is_ia))))
              (tier_cost_f64 (tier4_usage_f64 (fmul daily_gb (Finite 30)))
                 (over_50tb (vended_logs_pricing_of rp is_ia))),
          total_daily_cost_f64 =
            fdiv30 (fadd (fadd (fadd
              (fmul (tier1_usage_f64 (fmul daily_gb (Finite 30)))
                 (Finite (first_10tb (vended_logs_pricing_of rp is_ia))))
              (tier_cost_f64 (tier2_usage_f64 (fmul daily_gb (Finite 30)))
                 (next_20tb (vended_logs_pricing_of rp is_ia))))
              (tier_cost_f64 (tier3_usage_f64 (fmul daily_gb (Finite 30)))
                 (next_20tb_plus (vended_logs_pricing_of rp is_ia))))
              (tier_cost_f64 (tier4_usage_f64 (fmul daily_gb (Finite 30)))
                 (over_50tb (vended_logs_pricing_of rp is_ia))))\<rparr>"
  using assms
  by (simp add: calculate_new_cloudwatch_cost_f64_def load_pricing_data_def Let_def)

lemma calculate_new_f64_fields:
  assumes "pricing_file = Some pd" and "get_region_pricing pd region = Inr rp"
  shows "\<exists>r. calculate_new_cloudwatch_cost_f64 pricing_file daily_gb region is_ia = Inr r
           \<and> daily_gb_ingested_f64 r = daily_gb
           \<and> monthly_gb_ingested_f64 r = fmul daily_gb (Finite 30)
           \<and> tier1_cost_f64 r = fmul (tier1_usage_f64 (fmul daily_gb (Finite 30)))
                                   (Finite (first_10tb (vended_logs_pricing_of rp is_ia)))
           \<and> tier2_cost_f64 r = tier_cost_f64 (tier2_usage_f64 (fmul daily_gb (Finite 30)))
                                   (next_20tb (vended_logs_pricing_of rp is_ia))
           \<and> tier3_cost_f64 r = tier_cost_f64 (tier3_usage_f64 (fmul daily_gb (Finite 30)))
                                   (next_20tb_plus (vended_logs_pricing_of rp is_ia))
           \<and> tier4_cost_f64 r = tier_cost_f64 (tier4_usage_f64 (fmul daily_gb (Finite 30)))
                                   (over_50tb (vended_logs_pricing_of rp is_ia))
           \<and> total_monthly_cost_f64 r
               = fadd (fadd (fadd (tier1_cost_f64 r) (tier2_cost_f64 r)) (tier3_cost_f64 r))
                   (tier4_cost_f64 r)
           \<and> total_daily_cost_f64 r = fdiv30 (total_monthly_cost_f64 r)"
  unfolding calculate_new_f64_Inr [OF assms] by simp

lemma double_lookup:
  "double_file = Some (map_of [(''us-east-1'', double_region)])"
  "get_region_pricing (map_of [(''us-east-1'', double_region)]) ''us-east-1''
     = Inr double_region"
  by (simp_all add: double_file_def get_region_pricing_def)

lemma double_rates: "vended_logs_pricing_of double_region is_ia = double_schedule"
  by (simp add: vended_logs_pricing_of_def double_region_def)

lemma free_lookup:
  "free_file = Some (map_of [(''us-east-1'', free_region)])"
  "get_region_pricing (map_of [(''us-east-1'', free_region)]) ''us-east-1''
     = Inr free_region"
  by (simp_all add: free_file_def get_region_pricing_def)

lemma free_rates: "vended_logs_pricing_of free_region is_ia = free_schedule"
  by (simp add: vended_logs_pricing_of_def free_region_def)

text \<open>
  Two daily volumes whose exact product with 30 is not a double: the rounded monthly
  volume lands on a threshold, and the band above it is not entered.
\<close>

lemma monthly_volume_rounds_onto_threshold:
  "fmul (Finite (5864062014805333 / 17592186044416)) (Finite 30) = Finite 10000"
  "tier2_usage_f64 (Finite 10000) = None"
  "fmul (Finite (7330077518506667 / 4398046511104)) (Finite 30) = Finite 50000"
  "tier4_usage_f64 (Finite 50000) = None"
proof -
  show "fmul (Finite (5864062014805333 / 17592186044416)) (Finite 30) = Finite 10000"
    unfolding fmul.simps by (rule fl_eval) (code_simp, simp_all)
  show "fmul (Finite (7330077518506667 / 4398046511104)) (Finite 30) = Finite 50000"
    unfolding fmul.simps by (rule fl_eval) (code_simp, simp_all)
  show "tier2_usage_f64 (Finite 10000) = None" "tier4_usage_f64 (Finite 50000) = None"
    by (simp_all add: tier2_usage_f64_def tier4_usage_f64_def thresholds)
qed

subsection \<open>The boundary of the first band\<close>

text \<open>
  C3. Let the monthly volume computed by the calculator, \<open>daily_gb * 30\<close> rounded, be
  the finite double \<open>y\<close>. When \<open>y\<close> is exactly 10000, band 1 holds 10000, the usage
  variables of bands 2, 3 and 4 are never assigned and their costs are zero. When \<open>y\<close> is
  above 10000, band 1 holds 10000 and band 2 holds the excess \<open>y - 10000\<close>, without
  rounding error, up to its width 20000; the two bands together hold the volume up to
  30000 once, and each cost is the band's volume times the band's rate.
\<close>

theorem boundary_of_first_band_f64:
  assumes "pricing_file = Some pd"
    and "get_region_pricing pd region = Inr rp"
    and "fmul daily_gb (Finite 30) = Finite y"
  shows "(y = 10000 \<longrightarrow>
            (\<exists>r. calculate_new_cloudwatch_cost_f64 pricing_file daily_gb region is_ia = Inr r
               \<and> monthly_gb_ingested_f64 r = Finite 10000
               \<and> tier1_usage_f64 (monthly_gb_ingested_f64 r) = Finite 10000
               \<and> tier2_usage_f64 (monthly_gb_ingested_f64 r) = None
               \<and> tier3_usage_f64 (monthly_gb_ingested_f64 r) = None
               \<and> tier4_usage_f64 (monthly_gb_ingested_f64 r) = None
               \<and> tier1_cost_f64 r
                   = fmul (Finite 10000) (Finite (first_10tb (vended_logs_pricing_of rp is_ia)))
               \<and> tier2_cost_f64 r = Finite 0
               \<and> tier3_cost_f64 r = Finite 0
               \<and> tier4_cost_f64 r = Finite 0))
       \<and> (10000 < y \<longrightarrow>
            (\<exists>r. calculate_new_cloudwatch_cost_f64 pricing_file daily_gb region is_ia = Inr r
               \<and> monthly_gb_ingested_f64 r = Finite y
               \<and> tier1_usage_f64 (monthly_gb_ingested_f64 r) = Finite 10000
               \<and> tier2_usage_f64 (monthly_gb_ingested_f64 r)
                   = Some (Finite (min (y - 10000) 20000))
               \<and> tier1_cost_f64 r
                   = fmul (Finite 10000) (Finite (first_10tb (vended_logs_pricing_of rp is_ia)))
               \<and> tier2_cost_f64 r
                   = fmul (Finite (min (y - 10000) 20000))
                       (Finite (next_20tb (vended_logs_pricing_of rp is_ia)))
               \<and> 10000 + min (y - 10000) 20000 = min y 30000))"
proof -
  have d: "is_double y" using assms(3) by (rule fmul_Finite)
  have at: "tier2_usage_f64 (Finite 10000) = None" "tier3_usage_f64 (Finite 10000) = None"
    "tier4_usage_f64 (Finite 10000) = None"
    by (simp_all add: tier2_usage_f64_def tier3_usage_f64_def tier4_usage_f64_def thresholds)
  have above: "10000 < y \<Longrightarrow> 10000 + min (y - 10000) 20000 = min y 30000"
    by (simp add: min_def)
  show ?thesis
    unfolding calculate_new_f64_Inr [OF assms(1,2)] assms(3)
    using above
    by (auto simp add: at tier1_usage_f64_Finite tier2_usage_f64_Finite [OF d]
        tier_cost_f64_def)
qed

theorem boundary_of_first_band_f64_witness:
  "double_file = Some (map_of [(''us-east-1'', double_region)])
   \<and> get_region_pricing (map_of [(''us-east-1'', double_region)]) ''us-east-1''
       = Inr double_region
   \<and> fmul (Finite (5864062014805333 / 17592186044416)) (Finite 30) = Finite 10000
   \<and> (\<exists>r. calculate_new_cloudwatch_cost_f64 double_file
             (Finite (5864062014805333 / 17592186044416)) ''us-east-1'' False = Inr r
        \<and> monthly_gb_ingested_f64 r = Finite 10000
        \<and> tier1_cost_f64 r = Finite 5000
        \<and> tier2_cost_f64 r = Finite 0 \<and> tier3_cost_f64 r = Finite 0
        \<and> tier4_cost_f64 r = Finite 0)
   \<and> fmul (Finite 400) (Finite 30) = Finite 12000
   \<and> (10000 :: rat) < 12000
   \<and> (\<exists>r. calculate_new_cloudwatch_cost_f64 double_file (Finite 400) ''us-east-1'' False
             = Inr r
        \<and> tier2_usage_f64 (monthly_gb_ingested_f64 r) = Some (Finite 2000)
        \<and> tier1_cost_f64 r = Finite 5000
        \<and> tier2_cost_f64 r = Finite 500)"
proof -
  have r1: "rne (5864062014805333 / 17592186044416 * 30) = 10000" by code_simp
  have m1: "fmul (Finite (5864062014805333 / 17592186044416)) (Finite 30) = Finite 10000"
    unfolding fmul.simps fl_def Let_def r1 by simp
  have m2: "fmul (Finite 400) (Finite 30) = Finite 12000"
    using fl_of_int [of 12000] by simp
  have c1: "fl 5000 = Finite 5000"
    using fl_of_int [of 5000] by simp
  have c2: "fl 500 = Finite 500"
    using fl_of_int [of 500] by simp
  have above: "(10000 :: rat) < 12000" by simp
  from boundary_of_first_band_f64 [OF double_lookup m1, of False]
  have one: "\<exists>r. calculate_new_cloudwatch_cost_f64 double_file
             (Finite (5864062014805333 / 17592186044416)) ''us-east-1'' False = Inr r
        \<and> monthly_gb_ingested_f64 r = Finite 10000
        \<and> tier1_cost_f64 r = Finite 5000
        \<and> tier2_cost_f64 r = Finite 0 \<and> tier3_cost_f64 r = Finite 0
        \<and> tier4_cost_f64 r = Finite 0"
    by (auto simp add: double_rates double_schedule_def c1)
  from boundary_of_first_band_f64 [OF double_lookup m2, of False] above
  have two: "\<exists>r. calculate_new_cloudwatch_cost_f64 double_file (Finite 400) ''us-east-1'' False
             = Inr r
        \<and> tier2_usage_f64 (monthly_gb_ingested_f64 r) = Some (Finite 2000)
        \<and> tier1_cost_f64 r = Finite 5000
        \<and> tier2_cost_f64 r = Finite 500"
    by (auto simp add: double_rates double_schedule_def c1 c2)
  from double_lookup m1 one m2 above two show ?thesis by (intro conjI)
qed

subsection \<open>The volume in each band\<close>

text \<open>
  C1, as the code has it. For a non-negative finite daily volume whose monthly volume
  \<open>daily_gb * 30\<close>, rounded, is the finite double \<open>y\<close>, the calculator returns; each
  band's cost is the band's usage times the band's rate; the four usages (a band whose
  branch is skipped counting for 0) are non-negative and at most 10000, 20000 and 20000
  in the first three bands. When \<open>y\<close> is below \<open>2 ^ 57\<close> they add up to \<open>y\<close> exactly.
  From \<open>2 ^ 57\<close> on the usage of band 4 is the rounded difference \<open>y - 50000\<close>, and
  the sum can miss \<open>y\<close>.
\<close>

theorem tier_usages_partition_below_2_57:
  assumes "pricing_file = Some pd"
    and "get_region_pricing pd region = Inr rp"
    and "daily_gb = Finite x"
    and "0 \<le> x"
    and "fmul daily_gb (Finite 30) = Finite y"
  shows "\<exists>r u1 u2 u3 u4.
           calculate_new_cloudwatch_cost_f64 pricing_file daily_gb region is_ia = Inr r
         \<and> monthly_gb_ingested_f64 r = Finite y
         \<and> tier1_usage_f64 (Finite y) = Finite u1
         \<and> band_usage_f64 (tier2_usage_f64 (Finite y)) = Finite u2
         \<and> band_usage_f64 (tier3_usage_f64 (Finite y)) = Finite u3
         \<and> band_usage_f64 (tier4_usage_f64 (Finite y)) = Finite u4
         \<and> tier1_cost_f64 r
             = fmul (Finite u1) (Finite (first_10tb (vended_logs_pricing_of rp is_ia)))
         \<and> tier2_cost_f64 r
             = fmul (Finite u2) (Finite (next_20tb (vended_logs_pricing_of rp is_ia)))
         \<and> tier3_cost_f64 r
             = fmul (Finite u3) (Finite (next_20tb_plus (vended_logs_pricing_of rp is_ia)))
         \<and> tier4_cost_f64 r
             = fmul (Finite u4) (Finite (over_50tb (vended_logs_pricing_of rp is_ia)))
         \<and> 0 \<le> u1 \<and> u1 \<le> 10000
         \<and> 0 \<le> u2 \<and> u2 \<le> 20000
         \<and> 0 \<le> u3 \<and> u3 \<le> 20000
         \<and> 0 \<le> u4
         \<and> (y < 2 ^ 57 \<longrightarrow> u1 + u2 + u3 + u4 = y)"
proof -
  have d: "is_double y" using assms(5) by (rule fmul_Finite)
  from assms(3,5) have "fl (x * 30) = Finite y" by simp
  then have "y = rne (x * 30)" by (rule fl_Finite(1))
  moreover have "0 \<le> rne (x * 30)" using assms(4) by (intro rne_nonneg) simp
  ultimately have nonneg: "0 \<le> y" by simp
  define u1 where "u1 = min y 10000"
  define u2 where "u2 = (if 10000 < y then min (y - 10000) 20000 else 0)"
  define u3 where "u3 = (if 30000 < y then min (y - 30000) 20000 else 0)"
  define u4 where "u4 = (if 50000 < y then rne (y - 50000) else 0)"
  have t1: "tier1_usage_f64 (Finite y) = Finite u1"
    by (simp add: tier1_usage_f64_Finite u1_def)
  have t2: "band_usage_f64 (tier2_usage_f64 (Finite y)) = Finite u2"
    and c2: "tier_cost_f64 (tier2_usage_f64 (Finite y)) p = fmul (Finite u2) (Finite p)" for p
    by (simp_all add: tier2_usage_f64_Finite [OF d] band_usage_f64_def tier_cost_f64_def
        u2_def fl_zero)
  have t3: "band_usage_f64 (tier3_usage_f64 (Finite y)) = Finite u3"
    and c3: "tier_cost_f64 (tier3_usage_f64 (Finite y)) p = fmul (Finite u3) (Finite p)" for p
    by (simp_all add: tier3_usage_f64_Finite [OF d] band_usage_f64_def tier_cost_f64_def
        u3_def fl_zero)
  have t4: "band_usage_f64 (tier4_usage_f64 (Finite y)) = Finite u4"
    and c4: "tier_cost_f64 (tier4_usage_f64 (Finite y)) p = fmul (Finite u4) (Finite p)" for p
    by (simp_all add: tier4_usage_f64_Finite [OF d] band_usage_f64_def tier_cost_f64_def
        u4_def fl_zero)
  have b1: "0 \<le> u1" "u1 \<le> 10000" using nonneg by (simp_all add: u1_def)
  have b2: "0 \<le> u2" "u2 \<le> 20000" by (simp_all add: u2_def)
  have b3: "0 \<le> u3" "u3 \<le> 20000" by (simp_all add: u3_def)
  have b4: "0 \<le> u4"
  proof (cases "50000 < y")
    case True
    then have "0 \<le> rne (y - 50000)" by (intro fl_below(2) [OF d]) simp_all
    then show ?thesis using True by (simp add: u4_def)
  next
    case False
    then show ?thesis by (simp add: u4_def)
  qed
  have total: "u1 + u2 + u3 + u4 = y" if "y < 2 ^ 57"
  proof (cases "50000 < y")
    case True
    then have "u4 = y - 50000"
      using tier4_difference_exact [OF d True that] by (simp add: u4_def)
    then show ?thesis using True by (simp add: u1_def u2_def u3_def)
  next
    case False
    then show ?thesis by (simp add: u1_def u2_def u3_def u4_def min_def)
  qed
  from calculate_new_f64_fields [OF assms(1,2), of daily_gb is_ia] obtain r where
    r: "calculate_new_cloudwatch_cost_f64 pricing_file daily_gb region is_ia = Inr r"
      "monthly_gb_ingested_f64 r = Finite y"
      "tier1_cost_f64 r = fmul (tier1_usage_f64 (Finite y))
                            (Finite (first_10tb (vended_logs_pricing_of rp is_ia)))"
      "tier2_cost_f64 r = tier_cost_f64 (tier2_usage_f64 (Finite y))
                            (next_20tb (vended_logs_pricing_of rp is_ia))"
      "tier3_cost_f64 r = tier_cost_f64 (tier3_usage_f64 (Finite y))
                            (next_20tb_plus (vended_logs_pricing_of rp is_ia))"
      "tier4_cost_f64 r = tier_cost_f64 (tier4_usage_f64 (Finite y))
                            (over_50tb (vended_logs_pricing_of rp is_ia))"
    unfolding assms(5) by blast
  show ?thesis
    apply (rule exI [of _ r])
    apply (rule exI [of _ u1])
    apply (rule exI [of _ u2])
    apply (rule exI [of _ u3])
    apply (rule exI [of _ u4])
    using total
    apply (simp only: r t1 t2 t3 t4 c2 c3 c4 b1 b2 b3 b4)
    apply simp
    done
qed

theorem tier_usages_partition_below_2_57_witness:
  "double_file = Some (map_of [(''us-east-1'', double_region)])
   \<and> get_region_pricing (map_of [(''us-east-1'', double_region)]) ''us-east-1''
       = Inr double_region
   \<and> (0 :: rat) \<le> 1200
   \<and> fmul (Finite 1200) (Finite 30) = Finite 36000
   \<and> (36000 :: rat) < 2 ^ 57
   \<and> (\<exists>r u1 u2 u3 u4.
         calculate_new_cloudwatch_cost_f64 double_file (Finite 1200) ''us-east-1'' False = Inr r
       \<and> tier1_usage_f64 (Finite 36000) = Finite u1
       \<and> band_usage_f64 (tier2_usage_f64 (Finite 36000)) = Finite u2
       \<and> band_usage_f64 (tier3_usage_f64 (Finite 36000)) = Finite u3
       \<and> band_usage_f64 (tier4_usage_f64 (Finite 36000)) = Finite u4
       \<and> u1 = 10000 \<and> u2 = 20000 \<and> u3 = 6000 \<and> u4 = 0
       \<and> u1 + u2 + u3 + u4 = 36000
       \<and> tier1_cost_f64 r = Finite 5000 \<and> tier2_cost_f64 r = Finite 5000
       \<and> tier3_cost_f64 r = Finite 750 \<and> tier4_cost_f64 r = Finite 0)"
proof -
  have n: "(0 :: rat) \<le> 1200" by simp
  have m: "fmul (Finite 1200) (Finite 30) = Finite 36000"
    using fl_of_int [of 36000] by simp
  have small: "(36000 :: rat) < 2 ^ 57" by simp
  have d: "is_double 36000" using m by (rule fmul_Finite)
  have c: "fl 5000 = Finite 5000" "fl 750 = Finite 750"
    using fl_of_int [of 5000] fl_of_int [of 750] by simp_all
  from tier_usages_partition_below_2_57 [OF double_lookup refl n m, of False]
  obtain r u1 u2 u3 u4 where
    r: "calculate_new_cloudwatch_cost_f64 double_file (Finite 1200) ''us-east-1'' False = Inr r"
    and u: "tier1_usage_f64 (Finite 36000) = Finite u1"
      "band_usage_f64 (tier2_usage_f64 (Finite 36000)) = Finite u2"
      "band_usage_f64 (tier3_usage_f64 (Finite 36000)) = Finite u3"
      "band_usage_f64 (tier4_usage_f64 (Finite 36000)) = Finite u4"
    and t: "tier1_cost_f64 r
             = fmul (Finite u1) (Finite (first_10tb (vended_logs_pricing_of double_region False)))"
      "tier2_cost_f64 r
             = fmul (Finite u2) (Finite (next_20tb (vended_logs_pricing_of double_region False)))"
      "tier3_cost_f64 r
             = fmul (Finite u3)
                 (Finite (next_20tb_plus (vended_logs_pricing_of double_region False)))"
      "tier4_cost_f64 r
             = fmul (Finite u4) (Finite (over_50tb (vended_logs_pricing_of double_region False)))"
    and total: "36000 < (2 :: rat) ^ 57 \<longrightarrow> u1 + u2 + u3 + u4 = 36000"
    by blast
  from u have v: "u1 = 10000" "u2 = 20000" "u3 = 6000" "u4 = 0"
    by (simp_all add: tier1_usage_f64_Finite tier2_usage_f64_Finite [OF d]
        tier3_usage_f64_Finite [OF d] tier4_usage_f64_Finite [OF d] band_usage_f64_def)
  from t have costs: "tier1_cost_f64 r = Finite 5000" "tier2_cost_f64 r = Finite 5000"
    "tier3_cost_f64 r = Finite 750" "tier4_cost_f64 r = Finite 0"
    by (simp_all add: v double_rates double_schedule_def c fl_zero)
  from total small have sum: "u1 + u2 + u3 + u4 = 36000" by simp
  have "\<exists>r u1 u2 u3 u4.
         calculate_new_cloudwatch_cost_f64 double_file (Finite 1200) ''us-east-1'' False = Inr r
       \<and> tier1_usage_f64 (Finite 36000) = Finite u1
       \<and> band_usage_f64 (tier2_usage_f64 (Finite 36000)) = Finite u2
       \<and> band_usage_f64 (tier3_usage_f64 (Finite 36000)) = Finite u3
       \<and> band_usage_f64 (tier4_usage_f64 (Finite 36000)) = Finite u4
       \<and> u1 = 10000 \<and> u2 = 20000 \<and> u3 = 6000 \<and> u4 = 0
       \<and> u1 + u2 + u3 + u4 = 36000
       \<and> tier1_cost_f64 r = Finite 5000 \<and> tier2_cost_f64 r = Finite 5000
       \<and> tier3_cost_f64 r = Finite 750 \<and> tier4_cost_f64 r = Finite 0"
    using r u v sum costs by blast
  with double_lookup n m small show ?thesis by (intro conjI)
qed

text \<open>
  The sum of the four usages is not the monthly volume for every non-negative input:
  at the daily volume \<open>10 ^ 16\<close> the monthly volume is \<open>3 * 10 ^ 17\<close>, the difference
  \<open>monthly_gb - 50000\<close> is rounded to a multiple of 64, and the usages add up to 16 more
  than the monthly volume.
\<close>

theorem tier_usages_miss_monthly_gb_at_1e16:
  "calculate_new_cloudwatch_cost_f64 double_file (Finite (10 ^ 16)) ''us-east-1'' False
     = Inr \<lparr>daily_gb_ingested_f64 = Finite (10 ^ 16),
            monthly_gb_ingested_f64 = Finite 300000000000000000,
            tier1_cost_f64 = Finite 5000,
            tier2_cost_f64 = Finite 5000,
            tier3_cost_f64 = Finite 2500,
            tier4_cost_f64 = Finite 18749999999996876,
            total_monthly_cost_f64 = Finite 18750000000009376,
            total_daily_cost_f64 = Finite (1250000000000625 / 2)\<rparr>
   \<and> tier1_usage_f64 (Finite 300000000000000000) = Finite 10000
   \<and> tier2_usage_f64 (Finite 300000000000000000) = Some (Finite 20000)
   \<and> tier3_usage_f64 (Finite 300000000000000000) = Some (Finite 20000)
   \<and> tier4_usage_f64 (Finite 300000000000000000) = Some (Finite 299999999999950016)
   \<and> (10000 + 20000 + 20000 + 299999999999950016 :: rat) = 300000000000000000 + 16
   \<and> (10000 + 20000 + 20000 + 299999999999950016 :: rat) \<noteq> 300000000000000000"
proof -
  have m: "fmul (Finite (10 ^ 16)) (Finite 30) = Finite 300000000000000000"
    unfolding fmul.simps by (rule fl_eval) (code_simp, simp_all)
  have d: "is_double 300000000000000000" using m by (rule fmul_Finite)
  have r4: "rne 299999999999950000 = 299999999999950016" by code_simp
  have c: "fl 5000 = Finite 5000" "fl 2500 = Finite 2500" "fl 10000 = Finite 10000"
    "fl 12500 = Finite 12500"
    using fl_of_int [of 5000] fl_of_int [of 2500] fl_of_int [of 10000] fl_of_int [of 12500]
    by simp_all
  have c4: "fl 18749999999996876 = Finite 18749999999996876"
    by (rule fl_eval) (code_simp, simp_all)
  have ct: "fl 18750000000009376 = Finite 18750000000009376"
    by (rule fl_eval) (code_simp, simp_all)
  have cd: "fl (9375000000004688 / 15) = Finite (1250000000000625 / 2)"
    by (rule fl_eval) (code_simp, simp_all)
  have u: "tier1_usage_f64 (Finite 300000000000000000) = Finite 10000"
    "tier2_usage_f64 (Finite 300000000000000000) = Some (Finite 20000)"
    "tier3_usage_f64 (Finite 300000000000000000) = Some (Finite 20000)"
    "tier4_usage_f64 (Finite 300000000000000000) = Some (Finite 299999999999950016)"
    by (simp_all add: tier1_usage_f64_Finite tier2_usage_f64_Finite [OF d]
        tier3_usage_f64_Finite [OF d] tier4_usage_f64_Finite [OF d] r4)
  have "calculate_new_cloudwatch_cost_f64 double_file (Finite (10 ^ 16)) ''us-east-1'' False
     = Inr \<lparr>daily_gb_ingested_f64 = Finite (10 ^ 16),
            monthly_gb_ingested_f64 = Finite 300000000000000000,
            tier1_cost_f64 = Finite 5000,
            tier2_cost_f64 = Finite 5000,
            tier3_cost_f64 = Finite 2500,
            tier4_cost_f64 = Finite 18749999999996876,
            total_monthly_cost_f64 = Finite 18750000000009376,
            total_daily_cost_f64 = Finite (1250000000000625 / 2)\<rparr>"
    unfolding calculate_new_f64_Inr [OF double_lookup] m u
    by (simp add: tier_cost_f64_def double_rates double_schedule_def c c4 ct cd)
  with u show ?thesis by simp
qed

subsection \<open>Volumes within the first band\<close>

lemma rne_min_subnormal_multiple:
  assumes "\<bar>n\<bar> < 2 ^ 53"
  shows "rne (of_int n * min_subnormal) = of_int n * min_subnormal"
  using assms unfolding min_subnormal_def by (intro rne_exact [of _ n "- 1074"]) simp_all

lemma min_subnormal_pos: "0 < min_subnormal"
  by (simp add: min_subnormal_def)

lemma fl_negative:
  assumes "x \<le> c" and "rne c = c" and "c < 0"
  shows "fl x = NInf \<or> (\<exists>r. fl x = Finite r \<and> r \<le> c)"
proof -
  have "rne x \<le> rne c" using assms(1) by (rule rne_mono)
  then have le: "rne x \<le> c" by (simp add: assms(2))
  have "(0::rat) < 2 powi 1024" by (rule powi_pos)
  with le assms(3) have "\<not> 2 powi 1024 \<le> rne x" by simp
  then show ?thesis using le by (simp add: fl_def Let_def)
qed

lemma negative_product:
  assumes "0 < p" and "y * p \<le> - 30 * min_subnormal"
  shows "flt (fmul (Finite y) (Finite p)) (Finite 0)"
    and "flt (fdiv30 (fmul (Finite y) (Finite p))) (Finite 0)"
proof -
  have e30: "rne (- 30 * min_subnormal) = - 30 * min_subnormal"
    using rne_min_subnormal_multiple [of "- 30"] by simp
  have e1: "rne (- min_subnormal) = - min_subnormal"
    using rne_min_subnormal_multiple [of "- 1"] by simp
  have n30: "- 30 * min_subnormal < 0" and n1: "- min_subnormal < 0"
    using min_subnormal_pos by simp_all
  from fl_negative [OF assms(2) e30 n30]
  consider "fl (y * p) = NInf" | r where "fl (y * p) = Finite r" "r \<le> - 30 * min_subnormal"
    by blast
  then have "flt (fmul (Finite y) (Finite p)) (Finite 0)
      \<and> flt (fdiv30 (fmul (Finite y) (Finite p))) (Finite 0)"
  proof cases
    case 1
    then show ?thesis by (simp add: flt_def)
  next
    case 2
    from 2(2) n30 have neg: "r < 0" by simp
    from 2(2) have "r / 30 \<le> - min_subnormal" by simp
    from fl_negative [OF this e1 n1]
    have "fl (r / 30) = NInf \<or> (\<exists>q. fl (r / 30) = Finite q \<and> q < 0)"
      using n1 by auto
    with 2(1) neg show ?thesis by (auto simp add: flt_def)
  qed
  then show "flt (fmul (Finite y) (Finite p)) (Finite 0)"
    and "flt (fdiv30 (fmul (Finite y) (Finite p))) (Finite 0)"
    by simp_all
qed

lemma low_volume_f64:
  assumes "pricing_file = Some pd"
    and "get_region_pricing pd region = Inr rp"
    and "fmul daily_gb (Finite 30) = Finite y"
    and "y \<le> 10000"
  shows "\<exists>r. calculate_new_cloudwatch_cost_f64 pricing_file daily_gb region is_ia = Inr r
           \<and> daily_gb_ingested_f64 r = daily_gb
           \<and> monthly_gb_ingested_f64 r = Finite y
           \<and> tier1_cost_f64 r
               = fmul (Finite y) (Finite (first_10tb (vended_logs_pricing_of rp is_ia)))
           \<and> tier2_cost_f64 r = Finite 0
           \<and> tier3_cost_f64 r = Finite 0
           \<and> tier4_cost_f64 r = Finite 0
           \<and> total_monthly_cost_f64 r
               = fmul (Finite y) (Finite (first_10tb (vended_logs_pricing_of rp is_ia)))
           \<and> total_daily_cost_f64 r
               = fdiv30 (fmul (Finite y)
                   (Finite (first_10tb (vended_logs_pricing_of rp is_ia))))"
proof -
  from assms(4) have u: "tier1_usage_f64 (Finite y) = Finite y"
    "tier2_usage_f64 (Finite y) = None" "tier3_usage_f64 (Finite y) = None"
    "tier4_usage_f64 (Finite y) = None"
    by (simp_all add: tier1_usage_f64_Finite tier2_usage_f64_def tier3_usage_f64_def
        tier4_usage_f64_def thresholds)
  show ?thesis
    unfolding calculate_new_f64_Inr [OF assms(1,2)] assms(3) u
    by (simp add: tier_cost_f64_def fl_fadd_zero)
qed

text \<open>
  C10, as the code has it. Let the monthly volume \<open>daily_gb * 30\<close>, rounded, be a finite
  double \<open>y \<le> 10000\<close>, negative values included. The calculator returns; bands 2, 3 and
  4 cost nothing; the monthly cost is the rounded product of the rounded monthly volume
  and the first rate, in Python \<^verbatim>\<open>daily_gb * 30 * rate\<close>; the daily cost is that
  monthly cost divided by 30 and rounded again, which need not be \<^verbatim>\<open>daily_gb * rate\<close>.
  With a positive first rate, and a product \<open>y * rate\<close> of at least 30 times the smallest
  positive double in magnitude (so that no result underflows to zero), a negative volume
  gives a negative monthly and a negative daily cost.
\<close>

theorem low_volume_is_first_tier_only_f64:
  assumes "pricing_file = Some pd"
    and "get_region_pricing pd region = Inr rp"
    and "fmul daily_gb (Finite 30) = Finite y"
    and "y \<le> 10000"
  shows "\<exists>r. calculate_new_cloudwatch_cost_f64 pricing_file daily_gb region is_ia = Inr r
           \<and> monthly_gb_ingested_f64 r = Finite y
           \<and> tier2_cost_f64 r = Finite 0
           \<and> tier3_cost_f64 r = Finite 0
           \<and> tier4_cost_f64 r = Finite 0
           \<and> total_monthly_cost_f64 r
               = fmul (fmul daily_gb (Finite 30))
                   (Finite (first_10tb (vended_logs_pricing_of rp is_ia)))
           \<and> total_daily_cost_f64 r
               = fdiv30 (fmul (fmul daily_gb (Finite 30))
                   (Finite (first_10tb (vended_logs_pricing_of rp is_ia))))
           \<and> (0 < first_10tb (vended_logs_pricing_of rp is_ia)
                \<and> y * first_10tb (vended_logs_pricing_of rp is_ia) \<le> - 30 * min_subnormal
              \<longrightarrow> flt (total_monthly_cost_f64 r) (Finite 0)
                \<and> flt (total_daily_cost_f64 r) (Finite 0))"
proof -
  from low_volume_f64 [OF assms, of is_ia] obtain r where
    r: "calculate_new_cloudwatch_cost_f64 pricing_file daily_gb region is_ia = Inr r"
      "monthly_gb_ingested_f64 r = Finite y"
      "tier2_cost_f64 r = Finite 0" "tier3_cost_f64 r = Finite 0" "tier4_cost_f64 r = Finite 0"
      "total_monthly_cost_f64 r
         = fmul (Finite y) (Finite (first_10tb (vended_logs_pricing_of rp is_ia)))"
      "total_daily_cost_f64 r
         = fdiv30 (fmul (Finite y) (Finite (first_10tb (vended_logs_pricing_of rp is_ia))))"
    by blast
  have "flt (total_monthly_cost_f64 r) (Finite 0) \<and> flt (total_daily_cost_f64 r) (Finite 0)"
    if "0 < first_10tb (vended_logs_pricing_of rp is_ia)"
      and "y * first_10tb (vended_logs_pricing_of rp is_ia) \<le> - 30 * min_subnormal"
    using negative_product [OF that] by (simp add: r(6,7))
  with r show ?thesis
    unfolding assms(3) by (intro exI [of _ r]) simp
qed

theorem low_volume_is_first_tier_only_f64_witness:
  "double_file = Some (map_of [(''us-east-1'', double_region)])
   \<and> get_region_pricing (map_of [(''us-east-1'', double_region)]) ''us-east-1''
       = Inr double_region
   \<and> fmul (Finite (- 1)) (Finite 30) = Finite (- 30)
   \<and> (- 30 :: rat) \<le> 10000
   \<and> 0 < first_10tb (vended_logs_pricing_of double_region False)
   \<and> - 30 * first_10tb (vended_logs_pricing_of double_region False) \<le> - 30 * min_subnormal
   \<and> (\<exists>r. calculate_new_cloudwatch_cost_f64 double_file (Finite (- 1)) ''us-east-1'' False
             = Inr r
        \<and> monthly_gb_ingested_f64 r = Finite (- 30)
        \<and> tier2_cost_f64 r = Finite 0 \<and> tier3_cost_f64 r = Finite 0
        \<and> tier4_cost_f64 r = Finite 0
        \<and> total_monthly_cost_f64 r = Finite (- 15)
        \<and> total_daily_cost_f64 r = Finite (- (1 / 2))
        \<and> flt (total_monthly_cost_f64 r) (Finite 0)
        \<and> flt (total_daily_cost_f64 r) (Finite 0))"
proof -
  have m: "fmul (Finite (- 1)) (Finite 30) = Finite (- 30)"
    using fl_of_int [of "- 30"] by simp
  have low: "(- 30 :: rat) \<le> 10000" by simp
  have rate: "0 < first_10tb (vended_logs_pricing_of double_region False)"
    by (simp add: double_rates double_schedule_def)
  have "min_subnormal \<le> 1 / 2"
    by (simp add: min_subnormal_def)
  then have guard:
    "- 30 * first_10tb (vended_logs_pricing_of double_region False) \<le> - 30 * min_subnormal"
    by (simp add: double_rates double_schedule_def)
  have c: "fl (- 15) = Finite (- 15)" "fl (- 30) = Finite (- 30)"
    using fl_of_int [of "- 15"] fl_of_int [of "- 30"] by simp_all
  have h: "fl (- (1 / 2)) = Finite (- (1 / 2))"
    by (rule fl_eval) (code_simp, simp_all)
  from low_volume_is_first_tier_only_f64 [OF double_lookup m low, of False] rate guard
  have "\<exists>r. calculate_new_cloudwatch_cost_f64 double_file (Finite (- 1)) ''us-east-1'' False
             = Inr r
        \<and> monthly_gb_ingested_f64 r = Finite (- 30)
        \<and> tier2_cost_f64 r = Finite 0 \<and> tier3_cost_f64 r = Finite 0
        \<and> tier4_cost_f64 r = Finite 0
        \<and> total_monthly_cost_f64 r = Finite (- 15)
        \<and> total_daily_cost_f64 r = Finite (- (1 / 2))
        \<and> flt (total_monthly_cost_f64 r) (Finite 0)
        \<and> flt (total_daily_cost_f64 r) (Finite 0)"
    by (auto simp add: m double_rates double_schedule_def c h)
  with double_lookup m low rate guard show ?thesis by (intro conjI)
qed

text \<open>
  Two calls on which the statement of C10 fails. At the daily volume 40.31 (the double
  \<open>709141019450409 / 2 ^ 44\<close>) and the first rate \<open>1 / 2\<close> the daily cost returned is
  not \<^verbatim>\<open>daily_gb * rate\<close>, rounded or not: the monthly volume \<open>40.31 * 30\<close> is rounded,
  and dividing the monthly cost by 30 rounds again. At the daily volume \<open>- 1\<close> and a first
  rate of zero the cost is zero, not negative.
\<close>

theorem low_volume_daily_cost_differs_and_zero_rate_is_not_negative:
  "calculate_new_cloudwatch_cost_f64 double_file
       (Finite (709141019450409 / 17592186044416)) ''us-east-1'' False
     = Inr \<lparr>daily_gb_ingested_f64 = Finite (709141019450409 / 17592186044416),
            monthly_gb_ingested_f64 = Finite (1329639411469517 / 1099511627776),
            tier1_cost_f64 = Finite (1329639411469517 / 2199023255552),
            tier2_cost_f64 = Finite 0,
            tier3_cost_f64 = Finite 0,
            tier4_cost_f64 = Finite 0,
            total_monthly_cost_f64 = Finite (1329639411469517 / 2199023255552),
            total_daily_cost_f64 = Finite (5673128155603273 / 281474976710656)\<rparr>
   \<and> fmul (Finite (709141019450409 / 17592186044416))
        (Finite (first_10tb (vended_logs_pricing_of double_region False)))
       = Finite (709141019450409 / 35184372088832)
   \<and> (709141019450409 / 17592186044416 :: rat)
        * first_10tb (vended_logs_pricing_of double_region False)
       = 709141019450409 / 35184372088832
   \<and> (5673128155603273 / 281474976710656 :: rat) \<noteq> 709141019450409 / 35184372088832
   \<and> calculate_new_cloudwatch_cost_f64 free_file (Finite (- 1)) ''us-east-1'' False
     = Inr \<lparr>daily_gb_ingested_f64 = Finite (- 1),
            monthly_gb_ingested_f64 = Finite (- 30),
            tier1_cost_f64 = Finite 0,
            tier2_cost_f64 = Finite 0,
            tier3_cost_f64 = Finite 0,
            tier4_cost_f64 = Finite 0,
            total_monthly_cost_f64 = Finite 0,
            total_daily_cost_f64 = Finite 0\<rparr>
   \<and> \<not> flt (Finite 0) (Finite 0)"
proof -
  have m: "fmul (Finite (709141019450409 / 17592186044416)) (Finite 30)
             = Finite (1329639411469517 / 1099511627776)"
    unfolding fmul.simps by (rule fl_eval) (code_simp, simp_all)
  have d: "is_double (1329639411469517 / 1099511627776)" using m by (rule fmul_Finite)
  have t: "fl (1329639411469517 / 2199023255552) = Finite (1329639411469517 / 2199023255552)"
    by (rule fl_eval) (code_simp, simp_all)
  have q: "fl (1329639411469517 / 65970697666560)
             = Finite (5673128155603273 / 281474976710656)"
    by (rule fl_eval) (code_simp, simp_all)
  have h: "fl (709141019450409 / 35184372088832) = Finite (709141019450409 / 35184372088832)"
    by (rule fl_eval) (code_simp, simp_all)
  have low: "(1329639411469517 / 1099511627776 :: rat) \<le> 10000" by simp
  have one: "calculate_new_cloudwatch_cost_f64 double_file
       (Finite (709141019450409 / 17592186044416)) ''us-east-1'' False
     = Inr \<lparr>daily_gb_ingested_f64 = Finite (709141019450409 / 17592186044416),
            monthly_gb_ingested_f64 = Finite (1329639411469517 / 1099511627776),
            tier1_cost_f64 = Finite (1329639411469517 / 2199023255552),
            tier2_cost_f64 = Finite 0,
            tier3_cost_f64 = Finite 0,
            tier4_cost_f64 = Finite 0,
            total_monthly_cost_f64 = Finite (1329639411469517 / 2199023255552),
            total_daily_cost_f64 = Finite (5673128155603273 / 281474976710656)\<rparr>"
    using low_volume_f64 [OF double_lookup m low, of False]
    by (auto simp add: double_rates double_schedule_def t q)
  have m0: "fmul (Finite (- 1)) (Finite 30) = Finite (- 30)"
    using fl_of_int [of "- 30"] by simp
  have low0: "(- 30 :: rat) \<le> 10000" by simp
  have two: "calculate_new_cloudwatch_cost_f64 free_file (Finite (- 1)) ''us-east-1'' False
     = Inr \<lparr>daily_gb_ingested_f64 = Finite (- 1),
            monthly_gb_ingested_f64 = Finite (- 30),
            tier1_cost_f64 = Finite 0,
            tier2_cost_f64 = Finite 0,
            tier3_cost_f64 = Finite 0,
            tier4_cost_f64 = Finite 0,
            total_monthly_cost_f64 = Finite 0,
            total_daily_cost_f64 = Finite 0\<rparr>"
    using low_volume_f64 [OF free_lookup m0 low0, of False]
    by (auto simp add: free_rates free_schedule_def fl_zero)
  show ?thesis
    using one two by (simp add: double_rates double_schedule_def h flt_def)
qed

end
